theory Spec2Isabelle
  imports
    Main
    "HOL-Library.AList"
    "HOL-Library.Sublist"
    "HOL-Library.Char_ord"
    "HOL-Library.List_Lexorder"
begin

section \<open>The permanent configuration registry of firewalld (fw\_config.py)\<close>

text \<open>
  \<^verbatim>\<open>FirewallConfig\<close> keeps, for each of six kinds of objects, a dictionary of custom
  objects and a dictionary of builtin objects. The source repeats every method once per
  kind (\<^verbatim>\<open>get_ipset\<close>, \<^verbatim>\<open>get_zone\<close>, ...); the embedding has one function per method,
  taking the kind as an argument, and keeps the places where the kinds differ (the path
  test of zones and policies, the derived name of a zone file in a subdirectory,
  \<^verbatim>\<open>rename_zone\<close>, the branches of \<^verbatim>\<open>restore_settings_dict\<close>).
\<close>

subsection \<open>Data\<close>

datatype kind = IPSETS | HELPERS | ICMPTYPES | SERVICES | ZONES | POLICIES

datatype errcode =
    INVALID_IPSET | INVALID_ICMPTYPE | INVALID_SERVICE | INVALID_ZONE | INVALID_POLICY
  | INVALID_HELPER | NAME_CONFLICT | NO_DEFAULTS | INVALID_DIRECTORY
  | BUILTIN_IPSET | BUILTIN_ICMPTYPE | BUILTIN_SERVICE | BUILTIN_ZONE | BUILTIN_POLICY
  | BUILTIN_HELPER

text \<open>
  \<open>FirewallError c\<close> is \<^verbatim>\<open>FirewallError(errors.c, msg)\<close> (the message is left out);
  \<open>OtherException\<close> is any other exception: one raised by a collaborator, or by the
  Python runtime (\<^verbatim>\<open>OSError\<close> of \<^verbatim>\<open>os.remove\<close>, \<^verbatim>\<open>AttributeError\<close> on \<^verbatim>\<open>None\<close>).
\<close>

datatype error = FirewallError errcode | OtherException string

text \<open>
  An \<^verbatim>\<open>IO_Object\<close>: the attributes the registry reads and writes, and the payload of
  the kind (\<open>'c\<close>), which the registry hands to the collaborators and never looks into.
  The configuration tuples and dictionaries that \<^verbatim>\<open>export_config\<close> and
  \<^verbatim>\<open>export_config_dict\<close> return have the same opaque type.
\<close>

record 'c io_object =
  name :: string
  filename :: string
  path :: string
  builtin :: bool
  default_flag :: bool
  payload :: 'c

text \<open>
  A Python dictionary keeps its keys in insertion order: an association list, where
  \<^verbatim>\<open>d[k] = v\<close> is \<^const>\<open>AList.update\<close> (in place for a known key, at the end for a new
  one), \<^verbatim>\<open>del d[k]\<close> is \<^const>\<open>AList.delete\<close> and \<^verbatim>\<open>k in d\<close> is \<open>has_key\<close>.
\<close>

type_synonym 'c dict = "(string \<times> 'c io_object) list"

abbreviation has_key :: "('k \<times> 'v) list \<Rightarrow> 'k \<Rightarrow> bool" where
  "has_key d k \<equiv> map_of d k \<noteq> None"

text \<open>The dict of dicts of \<^verbatim>\<open>get_all_io_objects_dict\<close>, keyed by kind.\<close>

type_synonym 'c io_objects_dict = "kind \<Rightarrow> 'c dict"

text \<open>The settings that \<^verbatim>\<open>firewalld_conf\<close> holds.\<close>

type_synonym settings = "(string \<times> string) list"

text \<open>
  The calls that leave the registry, in the order they are made: a validator run on an
  object with its exported configuration, a writer of a kind run on an object, a file
  moved to its \<^verbatim>\<open>.old\<close> sibling, a file removed, firewalld.conf written.
\<close>

datatype 'c event =
    Checked kind "'c io_object" 'c
  | Written kind "'c io_object"
  | Moved string
  | Removed string
  | ConfWritten settings

text \<open>
  The state: \<^verbatim>\<open>self._ipsets\<close>, ... (\<open>custom\<close>), \<^verbatim>\<open>self._builtin_ipsets\<close>, ...
  (\<open>builtins\<close>), \<^verbatim>\<open>self._firewalld_conf\<close>, the paths that exist on disk, and the trace of
  calls.
\<close>

record 'c fw_config =
  custom :: "kind \<Rightarrow> 'c dict"
  builtins :: "kind \<Rightarrow> 'c dict"
  firewalld_conf :: "settings option"
  files :: "string set"
  trace :: "'c event list"

text \<open>
  What the source imports: the directories of \<^verbatim>\<open>firewall.config\<close>, the readers and
  writers, the methods of \<^verbatim>\<open>IO_Object\<close> and of \<^verbatim>\<open>firewalld_conf\<close>. They are parameters.
  \<open>new_payload k\<close> is the payload of a fresh \<^verbatim>\<open>IPSet()\<close>, \<^verbatim>\<open>Zone()\<close>, ...;
  \<open>obj_neq\<close> is \<^verbatim>\<open>!=\<close> on objects; \<open>move_error\<close> tells when \<^verbatim>\<open>shutil.move\<close> of an
  existing file fails.
\<close>

record 'c collaborators =
  etc_dir :: "kind \<Rightarrow> string"
  reader :: "kind \<Rightarrow> string \<Rightarrow> string \<Rightarrow> error + 'c io_object"
  writer :: "kind \<Rightarrow> 'c io_object \<Rightarrow> error option"
  new_payload :: "kind \<Rightarrow> 'c"
  check_name :: "kind \<Rightarrow> string \<Rightarrow> error option"
  import_config :: "kind \<Rightarrow> 'c io_object \<Rightarrow> 'c \<Rightarrow> 'c io_objects_dict \<Rightarrow> error + 'c"
  export_config :: "kind \<Rightarrow> 'c io_object \<Rightarrow> 'c"
  check_config_dict :: "kind \<Rightarrow> 'c io_object \<Rightarrow> 'c \<Rightarrow> 'c io_objects_dict \<Rightarrow> error option"
  obj_neq :: "'c io_object \<Rightarrow> 'c io_object \<Rightarrow> bool"
  move_error :: "string \<Rightarrow> error option"
  conf_set_defaults :: "settings \<Rightarrow> settings"
  conf_write :: "settings \<Rightarrow> error option"

subsection \<open>Paths\<close>

text \<open>\<^verbatim>\<open>os.path.basename\<close>, \<^verbatim>\<open>os.path.dirname\<close> and \<^verbatim>\<open>os.path.join\<close> of posixpath.\<close>

definition basename :: "string \<Rightarrow> string" where
  "basename p = rev (takeWhile (\<lambda>c. c \<noteq> CHR ''/'') (rev p))"

definition dirname :: "string \<Rightarrow> string" where
  "dirname p =
     (let head = rev (dropWhile (\<lambda>c. c \<noteq> CHR ''/'') (rev p))
      in if head \<noteq> [] \<and> \<not> list_all (\<lambda>c. c = CHR ''/'') head
         then rev (dropWhile (\<lambda>c. c = CHR ''/'') (rev head))
         else head)"

definition path_join :: "string \<Rightarrow> string \<Rightarrow> string" where
  "path_join a b =
     (if b \<noteq> [] \<and> hd b = CHR ''/'' then b
      else if a = [] \<or> last a = CHR ''/'' then a @ b
      else a @ ''/'' @ b)"

text \<open>
  Zones and policies test \<^verbatim>\<open>path.startswith(config.ETC_FIREWALLD_ZONES)\<close>, the other
  kinds \<^verbatim>\<open>path == config.ETC_FIREWALLD_IPSETS\<close>.
\<close>

definition hierarchical :: "kind \<Rightarrow> bool" where
  "hierarchical k = (k = ZONES \<or> k = POLICIES)"

definition is_custom_path :: "'c collaborators \<Rightarrow> kind \<Rightarrow> string \<Rightarrow> bool" where
  "is_custom_path env k p =
     (if hierarchical k then prefix (etc_dir env k) p else p = etc_dir env k)"

subsection \<open>Lookup\<close>

fun invalid_code :: "kind \<Rightarrow> errcode" where
  "invalid_code IPSETS = INVALID_IPSET"
| "invalid_code HELPERS = INVALID_HELPER"
| "invalid_code ICMPTYPES = INVALID_ICMPTYPE"
| "invalid_code SERVICES = INVALID_SERVICE"
| "invalid_code ZONES = INVALID_ZONE"
| "invalid_code POLICIES = INVALID_POLICY"

fun builtin_code :: "kind \<Rightarrow> errcode" where
  "builtin_code IPSETS = BUILTIN_IPSET"
| "builtin_code HELPERS = BUILTIN_HELPER"
| "builtin_code ICMPTYPES = BUILTIN_ICMPTYPE"
| "builtin_code SERVICES = BUILTIN_SERVICE"
| "builtin_code ZONES = BUILTIN_ZONE"
| "builtin_code POLICIES = BUILTIN_POLICY"

text \<open>\<^verbatim>\<open>get_ipsets\<close>, ...: \<^verbatim>\<open>sorted(set(list(custom.keys()) + list(builtin.keys())))\<close>.\<close>

definition get_objs :: "kind \<Rightarrow> 'c fw_config \<Rightarrow> string list" where
  "get_objs k s = sort (remdups (map fst (custom s k) @ map fst (builtins s k)))"

text \<open>\<^verbatim>\<open>add_ipset\<close>, ...\<close>

definition add_obj :: "kind \<Rightarrow> 'c io_object \<Rightarrow> 'c fw_config \<Rightarrow> 'c fw_config" where
  "add_obj k obj s =
     (if builtin obj
      then s\<lparr>builtins := (builtins s)(k := AList.update (name obj) obj (builtins s k))\<rparr>
      else s\<lparr>custom := (custom s)(k := AList.update (name obj) obj (custom s k))\<rparr>)"

text \<open>\<^verbatim>\<open>get_ipset\<close>, ...\<close>

definition get_obj :: "kind \<Rightarrow> string \<Rightarrow> 'c fw_config \<Rightarrow> error + 'c io_object" where
  "get_obj k n s =
     (case map_of (custom s k) n of
        Some obj \<Rightarrow> Inr obj
      | None \<Rightarrow>
          (case map_of (builtins s k) n of
             Some obj \<Rightarrow> Inr obj
           | None \<Rightarrow> Inl (FirewallError (invalid_code k))))"

text \<open>
  \<^verbatim>\<open>get_all_io_objects_dict\<close>: for each kind,
  \<^verbatim>\<open>{n: self.get_ipset(n) for n in self.get_ipsets()}\<close>. A name that \<open>get_obj\<close> rejected
  would raise; \<open>get_objs\<close> lists keys only, so there is none (lemma
  \<open>get_all_io_objects_dict_keys\<close>).
\<close>

definition get_all_io_objects_dict :: "'c fw_config \<Rightarrow> 'c io_objects_dict" where
  "get_all_io_objects_dict s =
     (\<lambda>k. List.map_filter
             (\<lambda>n. case get_obj k n s of Inr obj \<Rightarrow> Some (n, obj) | Inl e \<Rightarrow> None)
             (get_objs k s))"

subsection \<open>Validation\<close>

text \<open>
  \<^verbatim>\<open>full_check_config\<close>. The extra objects are mixed in
  (\<^verbatim>\<open>all_io_objects[type_key][obj.name] = obj\<close>), then every object of every kind is
  checked, the kinds in the order of \<open>check_order\<close>. A validator that raises ends the
  loops.
\<close>

fun mix_in_objs :: "'c dict \<Rightarrow> 'c io_object list \<Rightarrow> 'c dict" where
  "mix_in_objs d [] = d"
| "mix_in_objs d (obj # objs) = mix_in_objs (AList.update (name obj) obj d) objs"

fun mix_in :: "'c io_objects_dict \<Rightarrow> (kind \<times> 'c io_object list) list \<Rightarrow> 'c io_objects_dict" where
  "mix_in all_io_objects [] = all_io_objects"
| "mix_in all_io_objects ((type_key, objs) # rest) =
     mix_in (all_io_objects(type_key := mix_in_objs (all_io_objects type_key) objs)) rest"

definition check_order :: "kind list" where
  "check_order = [IPSETS, HELPERS, ICMPTYPES, SERVICES, ZONES, POLICIES]"

fun check_objs ::
  "'c collaborators \<Rightarrow> kind \<Rightarrow> 'c io_objects_dict \<Rightarrow> 'c dict \<Rightarrow> 'c fw_config \<Rightarrow>
   (error + unit) \<times> 'c fw_config" where
  "check_objs env k all_io_objects [] s = (Inr (), s)"
| "check_objs env k all_io_objects ((n, io_obj) # rest) s =
     (let conf = export_config env k io_obj;
          s1 = s\<lparr>trace := trace s @ [Checked k io_obj conf]\<rparr>
      in case check_config_dict env k io_obj conf all_io_objects of
           Some e \<Rightarrow> (Inl e, s1)
         | None \<Rightarrow> check_objs env k all_io_objects rest s1)"

fun check_kinds ::
  "'c collaborators \<Rightarrow> 'c io_objects_dict \<Rightarrow> kind list \<Rightarrow> 'c fw_config \<Rightarrow>
   (error + unit) \<times> 'c fw_config" where
  "check_kinds env all_io_objects [] s = (Inr (), s)"
| "check_kinds env all_io_objects (io_obj_type # rest) s =
     (case check_objs env io_obj_type all_io_objects (all_io_objects io_obj_type) s of
        (Inl e, s1) \<Rightarrow> (Inl e, s1)
      | (Inr u, s1) \<Rightarrow> check_kinds env all_io_objects rest s1)"

definition full_check_config ::
  "'c collaborators \<Rightarrow> (kind \<times> 'c io_object list) list \<Rightarrow> 'c fw_config \<Rightarrow>
   (error + unit) \<times> 'c fw_config" where
  "full_check_config env extra_io_objects s =
     check_kinds env (mix_in (get_all_io_objects_dict s) extra_io_objects) check_order s"

subsection \<open>Creating and editing\<close>

text \<open>
  \<^verbatim>\<open>set_ipset_config\<close>, \<^verbatim>\<open>set_service_config_dict\<close>, \<^verbatim>\<open>set_zone_config_dict\<close>, ...
  (\<^verbatim>\<open>set_service_config\<close> and \<^verbatim>\<open>set_zone_config\<close> turn the tuple into a dictionary and
  call these). The writer persists to \<^verbatim>\<open>path/filename\<close> of the object.
\<close>

definition set_obj_config ::
  "'c collaborators \<Rightarrow> kind \<Rightarrow> 'c io_object \<Rightarrow> 'c \<Rightarrow> 'c fw_config \<Rightarrow>
   (error + 'c io_object) \<times> 'c fw_config" where
  "set_obj_config env k obj conf s =
     (let x = (if builtin obj
               then (let x = obj\<lparr>path := etc_dir env k, builtin := False\<rparr>
                     in if path obj \<noteq> path x then x\<lparr>default_flag := False\<rparr> else x)
               else obj)
      in case import_config env k x conf (get_all_io_objects_dict s) of
           Inl e \<Rightarrow> (Inl e, s)
         | Inr p \<Rightarrow>
             (let x = x\<lparr>payload := p\<rparr>
              in case full_check_config env [(k, [x])] s of
                   (Inl e, s1) \<Rightarrow> (Inl e, s1)
                 | (Inr u, s1) \<Rightarrow>
                     (let s2 = add_obj k x s1
                      in case writer env k x of
                           Some e \<Rightarrow> (Inl e, s2)
                         | None \<Rightarrow>
                             (Inr x, s2\<lparr>files := insert (path_join (path x) (filename x)) (files s2),
                                        trace := trace s2 @ [Written k x]\<rparr>))))"

text \<open>
  \<^verbatim>\<open>new_ipset\<close>, \<^verbatim>\<open>new_service_dict\<close>, \<^verbatim>\<open>new_zone_dict\<close>, ... (\<^verbatim>\<open>new_service\<close> and
  \<^verbatim>\<open>new_zone\<close> make the same name test, turn the tuple into a dictionary and call these).
\<close>

definition new_obj ::
  "'c collaborators \<Rightarrow> kind \<Rightarrow> string \<Rightarrow> 'c \<Rightarrow> 'c fw_config \<Rightarrow>
   (error + 'c io_object) \<times> 'c fw_config" where
  "new_obj env k n conf s =
     (if has_key (custom s k) n \<or> has_key (builtins s k) n
      then (Inl (FirewallError NAME_CONFLICT), s)
      else case check_name env k n of
             Some e \<Rightarrow> (Inl e, s)
           | None \<Rightarrow>
               (let x = \<lparr>name = n, filename = n @ ''.xml'', path = etc_dir env k,
                         builtin = False, default_flag = True, payload = new_payload env k\<rparr>
                in case import_config env k x conf (get_all_io_objects_dict s) of
                     Inl e \<Rightarrow> (Inl e, s)
                   | Inr p \<Rightarrow>
                       (let x = x\<lparr>payload := p\<rparr>
                        in case full_check_config env [(k, [x])] s of
                             (Inl e, s1) \<Rightarrow> (Inl e, s1)
                           | (Inr u, s1) \<Rightarrow>
                               (let s2 = add_obj k x s1
                                in case writer env k x of
                                     Some e \<Rightarrow> (Inl e, s2)
                                   | None \<Rightarrow>
                                       (Inr x,
                                        s2\<lparr>files := insert (path_join (path x) (filename x)) (files s2),
                                           trace := trace s2 @ [Written k x]\<rparr>)))))"

subsection \<open>Removing and renaming\<close>

text \<open>
  The backup that \<^verbatim>\<open>_remove_ipset\<close>, ... and \<^verbatim>\<open>_reset_defaults\<close> make:
  \<^verbatim>\<open>try: shutil.move(name, "%s.old" % name)
except Exception as msg: log.error(...); os.remove(name)\<close>
  The move fails when the file is not there or the collaborator says so; \<^verbatim>\<open>os.remove\<close>
  raises when the file is not there.
\<close>

definition move_to_old ::
  "'c collaborators \<Rightarrow> string \<Rightarrow> 'c fw_config \<Rightarrow> (error + unit) \<times> 'c fw_config" where
  "move_to_old env fn s =
     (if fn \<in> files s \<and> move_error env fn = None
      then (Inr (), s\<lparr>files := insert (fn @ ''.old'') (files s - {fn}),
                      trace := trace s @ [Moved fn]\<rparr>)
      else if fn \<in> files s
      then (Inr (), s\<lparr>files := files s - {fn}, trace := trace s @ [Removed fn]\<rparr>)
      else (Inl (OtherException ''FileNotFoundError''), s))"

text \<open>\<^verbatim>\<open>_remove_ipset\<close>, ...; zones and policies test the path with \<^verbatim>\<open>startswith\<close>.\<close>

definition priv_remove_obj ::
  "'c collaborators \<Rightarrow> kind \<Rightarrow> 'c io_object \<Rightarrow> 'c fw_config \<Rightarrow> (error + unit) \<times> 'c fw_config" where
  "priv_remove_obj env k obj s =
     (if \<not> has_key (custom s k) (name obj) then (Inl (FirewallError (invalid_code k)), s)
      else if \<not> is_custom_path env k (path obj) then (Inl (FirewallError INVALID_DIRECTORY), s)
      else case move_to_old env (path obj @ ''/'' @ name obj @ ''.xml'') s of
             (Inl e, s1) \<Rightarrow> (Inl e, s1)
           | (Inr u, s1) \<Rightarrow>
               (Inr (), s1\<lparr>custom := (custom s1)(k := AList.delete (name obj) (custom s1 k))\<rparr>))"

text \<open>\<^verbatim>\<open>check_builtin_ipset\<close>, ...\<close>

definition check_builtin_obj :: "kind \<Rightarrow> 'c io_object \<Rightarrow> error option" where
  "check_builtin_obj k obj =
     (if builtin obj \<or> \<not> default_flag obj then Some (FirewallError (builtin_code k)) else None)"

text \<open>\<^verbatim>\<open>remove_ipset\<close>, ...\<close>

definition remove_obj ::
  "'c collaborators \<Rightarrow> kind \<Rightarrow> 'c io_object \<Rightarrow> 'c fw_config \<Rightarrow> (error + unit) \<times> 'c fw_config" where
  "remove_obj env k obj s =
     (case check_builtin_obj k obj of
        Some e \<Rightarrow> (Inl e, s)
      | None \<Rightarrow> priv_remove_obj env k obj s)"

text \<open>
  \<^verbatim>\<open>rename_ipset\<close>, ...: the copy under the new name is made, then the original is
  removed. \<^verbatim>\<open>rename_zone\<close> removes first, and makes the original again when the new
  zone cannot be made.
\<close>

definition rename_obj ::
  "'c collaborators \<Rightarrow> kind \<Rightarrow> 'c io_object \<Rightarrow> string \<Rightarrow> 'c fw_config \<Rightarrow>
   (error + 'c io_object) \<times> 'c fw_config" where
  "rename_obj env k obj n s =
     (case check_builtin_obj k obj of
        Some e \<Rightarrow> (Inl e, s)
      | None \<Rightarrow>
          (if k = ZONES
           then (let obj_conf = export_config env k obj
                 in case priv_remove_obj env k obj s of
                      (Inl e, s1) \<Rightarrow> (Inl e, s1)
                    | (Inr u, s1) \<Rightarrow>
                        (case new_obj env k n obj_conf s1 of
                           (Inr new_zone, s2) \<Rightarrow> (Inr new_zone, s2)
                         | (Inl e, s2) \<Rightarrow>
                             (case new_obj env k (name obj) obj_conf s2 of
                                (Inl e', s3) \<Rightarrow> (Inl e', s3)
                              | (Inr x, s3) \<Rightarrow> (Inl e, s3))))
           else (case new_obj env k n (export_config env k obj) s of
                   (Inl e, s1) \<Rightarrow> (Inl e, s1)
                 | (Inr new_x, s1) \<Rightarrow>
                     (case priv_remove_obj env k obj s1 of
                        (Inl e, s2) \<Rightarrow> (Inl e, s2)
                      | (Inr u, s2) \<Rightarrow> (Inr new_x, s2)))))"

subsection \<open>Reacting to a changed file\<close>

text \<open>
  \<^verbatim>\<open>update_ipset_from_path\<close>, ..., \<^verbatim>\<open>update_zone_from_path\<close>,
  \<^verbatim>\<open>update_policy_object_from_path\<close>. The loops over the keys of a dictionary return at
  the first object with the file name: \<^const>\<open>find\<close> on the items. A reader that raises
  is logged and gives \<^verbatim>\<open>(None, None)\<close>. Zones and policies take the name of a file in a
  subdirectory of their directory from the subdirectory and the file.
\<close>

definition update_obj_from_path ::
  "'c collaborators \<Rightarrow> kind \<Rightarrow> string \<Rightarrow> 'c fw_config \<Rightarrow>
   (string option \<times> 'c io_object option) \<times> 'c fw_config" where
  "update_obj_from_path env k nm s =
     (let fname = basename nm; p = dirname nm
      in if nm \<notin> files s
         then (if is_custom_path env k p
               then (case find (\<lambda>(x, obj). filename obj = fname) (custom s k) of
                       Some (x, obj) \<Rightarrow>
                         (let s1 = s\<lparr>custom := (custom s)(k := AList.delete x (custom s k))\<rparr>
                          in case map_of (builtins s1 k) (name obj) of
                               Some b \<Rightarrow> ((Some ''update'', Some b), s1)
                             | None \<Rightarrow> ((Some ''remove'', Some obj), s1))
                     | None \<Rightarrow> ((None, None), s))
               else (case find (\<lambda>(x, obj). filename obj = fname) (builtins s k) of
                       Some (x, obj) \<Rightarrow>
                         (let s1 = s\<lparr>builtins := (builtins s)(k := AList.delete x (builtins s k))\<rparr>
                          in if \<not> has_key (custom s1 k) (name obj)
                             then ((Some ''remove'', Some obj), s1)
                             else ((None, None), s1))
                     | None \<Rightarrow> ((None, None), s)))
         else (case reader env k fname p of
                 Inl msg \<Rightarrow> ((None, None), s)
               | Inr obj0 \<Rightarrow>
                   (let obj = (if hierarchical k \<and> prefix (etc_dir env k) p
                                   \<and> length p > length (etc_dir env k)
                               then obj0\<lparr>name := basename p @ ''/''
                                            @ take (length (basename fname) - 4) (basename fname)\<rparr>
                               else obj0)
                    in if \<not> has_key (builtins s k) (name obj) \<and> \<not> has_key (custom s k) (name obj)
                       then ((Some ''new'', Some obj), add_obj k obj s)
                       else if is_custom_path env k p
                       then (case map_of (custom s k) (name obj) of
                               Some old \<Rightarrow>
                                 (let obj = obj\<lparr>default_flag := default_flag old\<rparr>
                                  in ((Some ''update'', Some obj),
                                      s\<lparr>custom := (custom s)
                                           (k := AList.update (name obj) obj (custom s k))\<rparr>))
                             | None \<Rightarrow> ((Some ''update'', Some obj), s))
                       else (case map_of (builtins s k) (name obj) of
                               Some old \<Rightarrow>
                                 (let s1 = s\<lparr>builtins := (builtins s)
                                             (k := AList.update (name obj) obj
                                                     (AList.delete (name obj) (builtins s k)))\<rparr>
                                  in if \<not> has_key (custom s1 k) (name obj)
                                     then ((Some ''update'', Some obj), s1)
                                     else ((None, None), s1))
                             | None \<Rightarrow> ((None, None), s)))))"

subsection \<open>Reset to the defaults, and restoring\<close>

text \<open>
  \<^verbatim>\<open>_reset_defaults\<close>: the custom objects of every kind are backed up and dropped, a copy
  of the dictionary being iterated; then firewalld.conf is set to its defaults and written.
  \<^verbatim>\<open>self._firewalld_conf\<close> may be \<^verbatim>\<open>None\<close>, and the call on it raises then.
\<close>

definition reset_order :: "kind list" where
  "reset_order = [ZONES, POLICIES, IPSETS, SERVICES, HELPERS, ICMPTYPES]"

fun reset_objs ::
  "'c collaborators \<Rightarrow> kind \<Rightarrow> 'c dict \<Rightarrow> 'c fw_config \<Rightarrow> (error + unit) \<times> 'c fw_config" where
  "reset_objs env k [] s = (Inr (), s)"
| "reset_objs env k ((obj_name, obj) # rest) s =
     (case move_to_old env (path_join (path obj) (filename obj)) s of
        (Inl e, s1) \<Rightarrow> (Inl e, s1)
      | (Inr u, s1) \<Rightarrow>
          reset_objs env k rest
            (s1\<lparr>custom := (custom s1)(k := AList.delete obj_name (custom s1 k))\<rparr>))"

fun reset_kinds ::
  "'c collaborators \<Rightarrow> kind list \<Rightarrow> 'c fw_config \<Rightarrow> (error + unit) \<times> 'c fw_config" where
  "reset_kinds env [] s = (Inr (), s)"
| "reset_kinds env (k # rest) s =
     (case reset_objs env k (custom s k) s of
        (Inl e, s1) \<Rightarrow> (Inl e, s1)
      | (Inr u, s1) \<Rightarrow> reset_kinds env rest s1)"

definition priv_reset_defaults ::
  "'c collaborators \<Rightarrow> 'c fw_config \<Rightarrow> (error + unit) \<times> 'c fw_config" where
  "priv_reset_defaults env s =
     (case reset_kinds env reset_order s of
        (Inl e, s1) \<Rightarrow> (Inl e, s1)
      | (Inr u, s1) \<Rightarrow>
          (case firewalld_conf s1 of
             None \<Rightarrow> (Inl (OtherException ''AttributeError''), s1)
           | Some fc \<Rightarrow>
               (let s2 = s1\<lparr>firewalld_conf := Some (conf_set_defaults env fc)\<rparr>
                in case conf_write env (conf_set_defaults env fc) of
                     Some e \<Rightarrow> (Inl e, s2)
                   | None \<Rightarrow>
                       (Inr (), s2\<lparr>trace := trace s2 @ [ConfWritten (conf_set_defaults env fc)]\<rparr>))))"

text \<open>
  \<^verbatim>\<open>restore_settings_dict\<close>. \<^verbatim>\<open>current_config\<close> is taken once, before the loops. The
  loops of the ICMP types, helpers and zones end in \<^verbatim>\<open>elif current_obj is None\<close> and make
  an object that is missing; those of the services, address sets and policies end in
  \<^verbatim>\<open>elif service is None\<close> (\<^verbatim>\<open>ipset\<close>, \<^verbatim>\<open>policy_object\<close>), which no object of the
  dictionary satisfies, so they make nothing.
\<close>

definition recreates_missing :: "kind \<Rightarrow> bool" where
  "recreates_missing k = (k = ICMPTYPES \<or> k = HELPERS \<or> k = ZONES)"

definition restore_obj ::
  "'c collaborators \<Rightarrow> kind \<Rightarrow> 'c io_objects_dict \<Rightarrow> 'c io_object \<Rightarrow> 'c fw_config \<Rightarrow>
   (error + unit) \<times> 'c fw_config" where
  "restore_obj env k current_config obj s =
     (case map_of (current_config k) (name obj) of
        Some current_obj \<Rightarrow>
          (if obj_neq env current_obj obj
           then (case set_obj_config env k current_obj (export_config env k obj) s of
                   (Inl e, s1) \<Rightarrow> (Inl e, s1)
                 | (Inr x, s1) \<Rightarrow> (Inr (), s1))
           else (Inr (), s))
      | None \<Rightarrow>
          (if recreates_missing k
           then (case new_obj env k (name obj) (export_config env k obj) s of
                   (Inl e, s1) \<Rightarrow> (Inl e, s1)
                 | (Inr x, s1) \<Rightarrow> (Inr (), s1))
           else (Inr (), s)))"

fun restore_objs ::
  "'c collaborators \<Rightarrow> kind \<Rightarrow> 'c io_objects_dict \<Rightarrow> 'c io_object list \<Rightarrow> 'c fw_config \<Rightarrow>
   (error + unit) \<times> 'c fw_config" where
  "restore_objs env k current_config [] s = (Inr (), s)"
| "restore_objs env k current_config (obj # rest) s =
     (case restore_obj env k current_config obj s of
        (Inl e, s1) \<Rightarrow> (Inl e, s1)
      | (Inr u, s1) \<Rightarrow> restore_objs env k current_config rest s1)"

definition restore_order :: "kind list" where
  "restore_order = [ICMPTYPES, HELPERS, SERVICES, IPSETS, POLICIES, ZONES]"

fun restore_kinds ::
  "'c collaborators \<Rightarrow> 'c io_objects_dict \<Rightarrow> 'c io_objects_dict \<Rightarrow> kind list \<Rightarrow>
   'c fw_config \<Rightarrow> (error + unit) \<times> 'c fw_config" where
  "restore_kinds env settings_dict current_config [] s = (Inr (), s)"
| "restore_kinds env settings_dict current_config (k # rest) s =
     (case restore_objs env k current_config (map snd (settings_dict k)) s of
        (Inl e, s1) \<Rightarrow> (Inl e, s1)
      | (Inr u, s1) \<Rightarrow> restore_kinds env settings_dict current_config rest s1)"

definition restore_settings_dict ::
  "'c collaborators \<Rightarrow> 'c io_objects_dict option \<Rightarrow> settings option \<Rightarrow> 'c fw_config \<Rightarrow>
   (error + unit) \<times> 'c fw_config" where
  "restore_settings_dict env settings_dict fw_conf s =
     (case (case settings_dict of
              None \<Rightarrow> (Inr (), s)
            | Some sd \<Rightarrow> restore_kinds env sd (get_all_io_objects_dict s) restore_order s) of
        (Inl e, s1) \<Rightarrow> (Inl e, s1)
      | (Inr u, s1) \<Rightarrow>
          (case fw_conf of
             None \<Rightarrow> (Inr (), s1)
           | Some fc \<Rightarrow>
               (let s2 = s1\<lparr>firewalld_conf := Some fc\<rparr>
                in case conf_write env fc of
                     Some e \<Rightarrow> (Inl e, s2)
                   | None \<Rightarrow> (Inr (), s2\<lparr>trace := trace s2 @ [ConfWritten fc]\<rparr>))))"

text \<open>\<^verbatim>\<open>reset_defaults\<close>\<close>

definition reset_defaults ::
  "'c collaborators \<Rightarrow> 'c fw_config \<Rightarrow> (error + unit) \<times> 'c fw_config" where
  "reset_defaults env s =
     (let backup_config_dict = get_all_io_objects_dict s;
          backup_firewall_conf = firewalld_conf s
      in case priv_reset_defaults env s of
           (Inr u, s1) \<Rightarrow> (Inr (), s1)
         | (Inl e, s1) \<Rightarrow>
             (case restore_settings_dict env (Some backup_config_dict) backup_firewall_conf s1 of
                (Inl e', s2) \<Rightarrow> (Inl e', s2)
              | (Inr u, s2) \<Rightarrow> (Inl e, s2)))"

subsection \<open>The calls of a full check\<close>

text \<open>
  To state what \<^verbatim>\<open>full_check_config\<close> does: the merged dictionaries, the validator calls
  on them for a list of kinds, in order, and what the validator says at a call.
\<close>

definition verdict :: "'c collaborators \<Rightarrow> 'c io_objects_dict \<Rightarrow> 'c event \<Rightarrow> error option" where
  "verdict env all_io_objects ev =
     (case ev of
        Checked k io_obj conf \<Rightarrow> check_config_dict env k io_obj conf all_io_objects
      | Written k io_obj \<Rightarrow> None
      | Moved fn \<Rightarrow> None
      | Removed fn \<Rightarrow> None
      | ConfWritten fc \<Rightarrow> None)"

definition check_calls ::
  "'c collaborators \<Rightarrow> 'c io_objects_dict \<Rightarrow> kind list \<Rightarrow> 'c event list" where
  "check_calls env all_io_objects ks =
     concat (map (\<lambda>k. map (\<lambda>(n, io_obj). Checked k io_obj (export_config env k io_obj))
                          (all_io_objects k)) ks)"

definition merged ::
  "'c fw_config \<Rightarrow> (kind \<times> 'c io_object list) list \<Rightarrow> 'c io_objects_dict" where
  "merged s extra_io_objects = mix_in (get_all_io_objects_dict s) extra_io_objects"

subsection \<open>The order of the writer calls\<close>

text \<open>
  The kinds of the writer calls of a trace, and what it means that they follow an order
  of the kinds.
\<close>

fun written_kinds :: "'c event list \<Rightarrow> kind list" where
  "written_kinds [] = []"
| "written_kinds (Written k x # evs) = k # written_kinds evs"
| "written_kinds (ev # evs) = written_kinds evs"



subsection \<open>The calls of a replay\<close>







subsection \<open>Entries under their own names\<close>

text \<open>
  \<^verbatim>\<open>add_*\<close> and \<^verbatim>\<open>update_*_from_path\<close> store an object under \<^verbatim>\<open>obj.name\<close>: in the
  dictionaries they fill, every key is the name of its object.
\<close>

definition keys_are_names :: "'c dict \<Rightarrow> bool" where
  "keys_are_names d = list_all (\<lambda>(x, obj). name obj = x) d"

subsection \<open>A concrete instance\<close>

text \<open>
  Collaborators and registries on which the definitions can be evaluated: payloads are
  numbers, the validator rejects the configuration 13, the reader rejects \<^verbatim>\<open>bad.xml\<close>,
  and writing firewalld.conf fails when it holds no setting.
\<close>

definition demo_dir :: "kind \<Rightarrow> string" where
  "demo_dir k =
     (case k of IPSETS \<Rightarrow> ''/etc/firewalld/ipsets'' | HELPERS \<Rightarrow> ''/etc/firewalld/helpers''
      | ICMPTYPES \<Rightarrow> ''/etc/firewalld/icmptypes'' | SERVICES \<Rightarrow> ''/etc/firewalld/services''
      | ZONES \<Rightarrow> ''/etc/firewalld/zones'' | POLICIES \<Rightarrow> ''/etc/firewalld/policies'')"

definition demo_env :: "nat collaborators" where
  "demo_env =
     \<lparr>etc_dir = demo_dir,
      reader = (\<lambda>k f p. if f = ''bad.xml'' then Inl (OtherException ''not well-formed'')
                else Inr \<lparr>name = take (length f - 4) f, filename = f, path = p,
                          builtin = \<not> prefix ''/etc/firewalld'' p,
                          default_flag = \<not> prefix ''/etc/firewalld'' p, payload = 7\<rparr>),
      writer = (\<lambda>k x. None),
      new_payload = (\<lambda>k. 0),
      check_name = (\<lambda>k n. None),
      import_config = (\<lambda>k x conf all_io_objects. Inr conf),
      export_config = (\<lambda>k x. payload x),
      check_config_dict = (\<lambda>k x conf all_io_objects.
                             if conf = 13 then Some (OtherException ''INVALID_TYPE'') else None),
      obj_neq = (\<lambda>a b. a \<noteq> b),
      move_error = (\<lambda>fn. None),
      conf_set_defaults = (\<lambda>fc. []),
      conf_write = (\<lambda>fc. if fc = [] then Some (OtherException ''IOError'') else None)\<rparr>"

definition demo_builtin :: "nat io_object" where
  "demo_builtin = \<lparr>name = ''ssh'', filename = ''ssh.xml'', path = ''/usr/lib/firewalld/services'',
                   builtin = True, default_flag = True, payload = 1\<rparr>"

definition demo_custom :: "nat io_object" where
  "demo_custom = \<lparr>name = ''ssh'', filename = ''ssh.xml'', path = ''/etc/firewalld/services'',
                  builtin = False, default_flag = True, payload = 2\<rparr>"

definition demo_empty :: "nat fw_config" where
  "demo_empty = \<lparr>custom = (\<lambda>k. []), builtins = (\<lambda>k. []),
                 firewalld_conf = Some [(''DefaultZone'', ''public'')],
                 files = {}, trace = []\<rparr>"

definition demo_both :: "nat fw_config" where
  "demo_both = \<lparr>custom = (\<lambda>k. if k = SERVICES then [(''ssh'', demo_custom)] else []),
                builtins = (\<lambda>k. if k = SERVICES then [(''ssh'', demo_builtin)] else []),
                firewalld_conf = Some [(''DefaultZone'', ''public'')],
                files = {''/etc/firewalld/services/ssh.xml'', ''/usr/lib/firewalld/services/ssh.xml''},
                trace = []\<rparr>"

definition demo_custom_only :: "nat fw_config" where
  "demo_custom_only = demo_both\<lparr>builtins := (\<lambda>k. []), files := {}\<rparr>"

definition demo_office :: "nat io_object" where
  "demo_office = \<lparr>name = ''office'', filename = ''office.xml'', path = ''/etc/firewalld/ipsets'',
                  builtin = False, default_flag = True, payload = 3\<rparr>"

definition demo_home :: "nat io_object" where
  "demo_home = \<lparr>name = ''home'', filename = ''home.xml'', path = ''/etc/firewalld/zones'',
                builtin = False, default_flag = True, payload = 4\<rparr>"

definition demo_multi :: "nat fw_config" where
  "demo_multi =
     \<lparr>custom = (\<lambda>k. if k = IPSETS then [(''office'', demo_office)]
                    else if k = ZONES then [(''home'', demo_home)] else []),
      builtins = (\<lambda>k. if k = SERVICES then [(''ssh'', demo_builtin)] else []),
      firewalld_conf = Some [(''DefaultZone'', ''home'')],
      files = {''/etc/firewalld/ipsets/office.xml'', ''/etc/firewalld/zones/home.xml'',
               ''/usr/lib/firewalld/services/ssh.xml''},
      trace = []\<rparr>"

definition demo_candidate :: "nat io_object" where
  "demo_candidate = \<lparr>name = ''ssh'', filename = ''ssh.xml'', path = ''/etc/firewalld/services'',
                     builtin = False, default_flag = False, payload = 13\<rparr>"

definition demo_office_builtin :: "nat io_object" where
  "demo_office_builtin = \<lparr>name = ''office'', filename = ''office.xml'',
                          path = ''/usr/lib/firewalld/ipsets'',
                          builtin = True, default_flag = True, payload = 1\<rparr>"

definition demo_ping :: "nat io_object" where
  "demo_ping = \<lparr>name = ''ping'', filename = ''ping.xml'', path = ''/etc/firewalld/icmptypes'',
                builtin = False, default_flag = True, payload = 5\<rparr>"

definition demo_web :: "nat io_object" where
  "demo_web = \<lparr>name = ''web'', filename = ''web.xml'', path = ''/etc/firewalld/services'',
               builtin = False, default_flag = True, payload = 6\<rparr>"

definition demo_replay :: "nat fw_config" where
  "demo_replay =
     \<lparr>custom = (\<lambda>k. if k = IPSETS then [(''office'', demo_office)]
                    else if k = ICMPTYPES then [(''ping'', demo_ping)]
                    else if k = SERVICES then [(''web'', demo_web)] else []),
      builtins = (\<lambda>k. if k = IPSETS then [(''office'', demo_office_builtin)] else []),
      firewalld_conf = Some [(''DefaultZone'', ''public'')],
      files = {''/etc/firewalld/ipsets/office.xml'', ''/etc/firewalld/icmptypes/ping.xml'',
               ''/etc/firewalld/services/web.xml'', ''/usr/lib/firewalld/ipsets/office.xml''},
      trace = []\<rparr>"

definition demo_reset :: "nat fw_config" where
  "demo_reset =
     \<lparr>custom = (\<lambda>k. []),
      builtins = (\<lambda>k. if k = IPSETS then [(''office'', demo_office_builtin)] else []),
      firewalld_conf = Some [],
      files = {''/etc/firewalld/ipsets/office.xml.old'', ''/etc/firewalld/icmptypes/ping.xml.old'',
               ''/etc/firewalld/services/web.xml.old'', ''/usr/lib/firewalld/ipsets/office.xml''},
      trace = [Moved ''/etc/firewalld/ipsets/office.xml'', Moved ''/etc/firewalld/services/web.xml'',
               Moved ''/etc/firewalld/icmptypes/ping.xml'']\<rparr>"



section \<open>Properties\<close>

subsection \<open>Lookup and shadowing\<close>

lemma priv_remove_obj_get:
  assumes "priv_remove_obj env k c s = (Inr (), s')"
  shows "map_of (custom s' k) (name c) = None \<and> builtins s' = builtins s"
  using assms
  by (auto simp: priv_remove_obj_def move_to_old_def delete_conv split: if_splits)

lemma priv_remove_obj_succeeds:
  assumes "has_key (custom s k) (name c)" "is_custom_path env k (path c)"
    "path c @ ''/'' @ name c @ ''.xml'' \<in> files s"
  shows "\<exists>s'. priv_remove_obj env k c s = (Inr (), s')"
  using assms by (auto simp: priv_remove_obj_def move_to_old_def)

text \<open>
  C1. Lookup returns the custom object registered under the name, else the builtin one,
  else fails with the \<^verbatim>\<open>INVALID_*\<close> code of the kind. After a builtin and a custom object of
  one name are added (in either order) the name gives the custom object; once the custom
  object is removed (\<^verbatim>\<open>_remove_*\<close>, which succeeds when its path is the custom directory
  and its file exists, or \<^verbatim>\<open>remove_*\<close>), the name gives the builtin object.
\<close>

theorem get_obj_tiers:
  "(map_of (custom s k) n = Some c \<longrightarrow> get_obj k n s = Inr c) \<and>
   (map_of (custom s k) n = None \<and> map_of (builtins s k) n = Some b \<longrightarrow> get_obj k n s = Inr b) \<and>
   (map_of (custom s k) n = None \<and> map_of (builtins s k) n = None \<longrightarrow>
      get_obj k n s = Inl (FirewallError (invalid_code k))) \<and>
   (builtin b' \<and> \<not> builtin c' \<and> name b' = name c' \<longrightarrow>
      get_obj k (name c') (add_obj k c' (add_obj k b' s)) = Inr c' \<and>
      get_obj k (name c') (add_obj k b' (add_obj k c' s)) = Inr c' \<and>
      (is_custom_path env k (path c') \<and> path c' @ ''/'' @ name c' @ ''.xml'' \<in> files s \<longrightarrow>
         (\<exists>s'. priv_remove_obj env k c' (add_obj k c' (add_obj k b' s)) = (Inr (), s') \<and>
               get_obj k (name c') s' = Inr b')) \<and>
      (\<forall>s'. remove_obj env k c' (add_obj k c' (add_obj k b' s)) = (Inr (), s') \<longrightarrow>
            get_obj k (name c') s' = Inr b'))"
proof (intro conjI impI)
  show "get_obj k n s = Inr c" if "map_of (custom s k) n = Some c"
    using that by (simp add: get_obj_def)
  show "get_obj k n s = Inr b" if "map_of (custom s k) n = None \<and> map_of (builtins s k) n = Some b"
    using that by (simp add: get_obj_def)
  show "get_obj k n s = Inl (FirewallError (invalid_code k))"
    if "map_of (custom s k) n = None \<and> map_of (builtins s k) n = None"
    using that by (simp add: get_obj_def)
next
  assume h: "builtin b' \<and> \<not> builtin c' \<and> name b' = name c'"
  let ?s2 = "add_obj k c' (add_obj k b' s)"
  have cust: "map_of (custom ?s2 k) (name c') = Some c'"
    using h by (simp add: add_obj_def update_conv)
  have blt: "map_of (builtins ?s2 k) (name c') = Some b'"
    using h by (simp add: add_obj_def update_conv)
  show "get_obj k (name c') ?s2 = Inr c'"
    using cust by (simp add: get_obj_def)
  show "get_obj k (name c') (add_obj k b' (add_obj k c' s)) = Inr c'"
    using h by (simp add: get_obj_def add_obj_def update_conv)
  have after: "get_obj k (name c') s' = Inr b'" if "priv_remove_obj env k c' ?s2 = (Inr (), s')" for s'
    using priv_remove_obj_get [OF that] blt by (simp add: get_obj_def)
  show "\<forall>s'. remove_obj env k c' ?s2 = (Inr (), s') \<longrightarrow> get_obj k (name c') s' = Inr b'"
    using after by (auto simp: remove_obj_def split: option.splits)
  show "\<exists>s'. priv_remove_obj env k c' ?s2 = (Inr (), s') \<and> get_obj k (name c') s' = Inr b'"
    if p: "is_custom_path env k (path c') \<and> path c' @ ''/'' @ name c' @ ''.xml'' \<in> files s"
  proof -
    have "path c' @ ''/'' @ name c' @ ''.xml'' \<in> files ?s2"
      using p by (simp add: add_obj_def)
    then obtain s' where "priv_remove_obj env k c' ?s2 = (Inr (), s')"
      using priv_remove_obj_succeeds [of ?s2 k c' env] cust p by auto
    then show ?thesis using after by blast
  qed
qed

lemma demo_is_custom_path: "is_custom_path demo_env SERVICES ''/etc/firewalld/services''"
  by (simp add: is_custom_path_def hierarchical_def demo_env_def demo_dir_def)

theorem get_obj_tiers_witness:
  "get_obj SERVICES ''ssh'' demo_both = Inr demo_custom \<and>
   get_obj SERVICES ''ssh'' (demo_both\<lparr>custom := (\<lambda>k. [])\<rparr>) = Inr demo_builtin \<and>
   get_obj SERVICES ''ssh'' demo_empty = Inl (FirewallError INVALID_SERVICE) \<and>
   get_obj SERVICES ''ssh'' (add_obj SERVICES demo_custom (add_obj SERVICES demo_builtin demo_empty))
     = Inr demo_custom \<and>
   (\<exists>s'. priv_remove_obj demo_env SERVICES demo_custom
           (add_obj SERVICES demo_custom (add_obj SERVICES demo_builtin
              (demo_empty\<lparr>files := {''/etc/firewalld/services/ssh.xml''}\<rparr>))) = (Inr (), s') \<and>
         get_obj SERVICES ''ssh'' s' = Inr demo_builtin)"
proof -
  have 1: "map_of (custom demo_both SERVICES) ''ssh'' = Some demo_custom"
    by (simp add: demo_both_def)
  have 2: "map_of (custom (demo_both\<lparr>custom := (\<lambda>k. [])\<rparr>) SERVICES) ''ssh'' = None \<and>
           map_of (builtins (demo_both\<lparr>custom := (\<lambda>k. [])\<rparr>) SERVICES) ''ssh'' = Some demo_builtin"
    by (simp add: demo_both_def)
  have 3: "map_of (custom demo_empty SERVICES) ''ssh'' = None \<and>
           map_of (builtins demo_empty SERVICES) ''ssh'' = None"
    by (simp add: demo_empty_def)
  have 4: "builtin demo_builtin \<and> \<not> builtin demo_custom \<and> name demo_builtin = name demo_custom"
    by (simp add: demo_builtin_def demo_custom_def)
  have 5: "is_custom_path demo_env SERVICES (path demo_custom) \<and>
           path demo_custom @ ''/'' @ name demo_custom @ ''.xml''
             \<in> files (demo_empty\<lparr>files := {''/etc/firewalld/services/ssh.xml''}\<rparr>)"
    using demo_is_custom_path by (simp add: demo_custom_def)
  have n: "name demo_custom = ''ssh''" by (simp add: demo_custom_def)
  show ?thesis
    using get_obj_tiers [where s = demo_both and k = SERVICES and n = "''ssh''" and c = demo_custom] 1
      get_obj_tiers [where s = "demo_both\<lparr>custom := (\<lambda>k. [])\<rparr>" and k = SERVICES
         and n = "''ssh''" and b = demo_builtin] 2
      get_obj_tiers [where s = demo_empty and k = SERVICES and n = "''ssh''"] 3
      get_obj_tiers [where b' = demo_builtin and c' = demo_custom and k = SERVICES
         and env = demo_env and s = demo_empty] 4
      get_obj_tiers [where b' = demo_builtin and c' = demo_custom and k = SERVICES
         and env = demo_env and s = "demo_empty\<lparr>files := {''/etc/firewalld/services/ssh.xml''}\<rparr>"] 4 5
    unfolding n by simp
qed

subsection \<open>The full check changes the trace only\<close>

lemma check_objs_trace:
  "\<exists>t. snd (check_objs env k al d s) = s\<lparr>trace := trace s @ t\<rparr>"
proof (induction d arbitrary: s)
  case Nil
  have "s = s\<lparr>trace := trace s @ []\<rparr>" by simp
  then show ?case by (metis check_objs.simps(1) snd_conv)
next
  case (Cons it d)
  obtain n io_obj where it: "it = (n, io_obj)" by (cases it)
  let ?s1 = "s\<lparr>trace := trace s @ [Checked k io_obj (export_config env k io_obj)]\<rparr>"
  show ?case
  proof (cases "check_config_dict env k io_obj (export_config env k io_obj) al")
    case None
    from Cons.IH [of ?s1] obtain t where
      "snd (check_objs env k al d ?s1) = ?s1\<lparr>trace := trace ?s1 @ t\<rparr>" by blast
    then show ?thesis using None it by (auto simp: Let_def)
  next
    case (Some e)
    then show ?thesis using it by (auto simp: Let_def)
  qed
qed


lemma check_kinds_trace:
  "\<exists>t. snd (check_kinds env al ks s) = s\<lparr>trace := trace s @ t\<rparr>"
proof (induction ks arbitrary: s)
  case Nil
  have "s = s\<lparr>trace := trace s @ []\<rparr>" by simp
  then show ?case by (metis check_kinds.simps(1) snd_conv)
next
  case (Cons k ks)
  obtain r s1 where r: "check_objs env k al (al k) s = (r, s1)" by fastforce
  obtain t where t: "s1 = s\<lparr>trace := trace s @ t\<rparr>"
    using check_objs_trace [of env k al "al k" s] r by auto
  show ?case
  proof (cases r)
    case (Inl e)
    then show ?thesis using r t by auto
  next
    case (Inr u)
    from Cons.IH [of s1] obtain t' where
      "snd (check_kinds env al ks s1) = s1\<lparr>trace := trace s1 @ t'\<rparr>" by blast
    then show ?thesis using Inr r t by auto
  qed
qed

lemma full_check_config_trace:
  "\<exists>t. snd (full_check_config env extra s) = s\<lparr>trace := trace s @ t\<rparr>"
  unfolding full_check_config_def by (rule check_kinds_trace)

lemma full_check_config_frame:
  assumes "full_check_config env extra s = (r, s1)"
  shows "custom s1 = custom s \<and> builtins s1 = builtins s \<and> files s1 = files s
         \<and> firewalld_conf s1 = firewalld_conf s"
proof -
  obtain t where "s1 = s\<lparr>trace := trace s @ t\<rparr>"
    using full_check_config_trace [of env extra s] assms by auto
  then show ?thesis by simp
qed

subsection \<open>Refused operations\<close>

text \<open>
  C2. Creating an object under a name that the custom or the builtin dictionary of the kind
  holds fails with \<^verbatim>\<open>NAME_CONFLICT\<close>, and the state is the one before: no file written, no
  collaborator called, both dictionaries unchanged.
\<close>

theorem new_obj_name_conflict:
  assumes "has_key (custom s k) n \<or> has_key (builtins s k) n"
  shows "new_obj env k n conf s = (Inl (FirewallError NAME_CONFLICT), s)"
  using assms by (simp add: new_obj_def)

theorem new_obj_name_conflict_witness:
  "has_key (custom demo_both SERVICES) ''ssh'' \<and>
   new_obj demo_env SERVICES ''ssh'' 5 demo_both = (Inl (FirewallError NAME_CONFLICT), demo_both)"
proof -
  have h: "has_key (custom demo_both SERVICES) ''ssh'' \<or> has_key (builtins demo_both SERVICES) ''ssh''"
    by (simp add: demo_both_def)
  show ?thesis
    using new_obj_name_conflict [OF h, of demo_env 5] by (simp add: demo_both_def)
qed

text \<open>
  C3. \<^verbatim>\<open>remove_*\<close> and \<^verbatim>\<open>rename_*\<close> on an object that is builtin, or whose \<^verbatim>\<open>default\<close>
  is false, fail with the \<^verbatim>\<open>BUILTIN_*\<close> code of the kind and leave the state, so the list
  of names of the kind, unchanged.
\<close>

theorem remove_rename_builtin_protected:
  assumes "builtin obj \<or> \<not> default_flag obj"
  shows "remove_obj env k obj s = (Inl (FirewallError (builtin_code k)), s) \<and>
         rename_obj env k obj n s = (Inl (FirewallError (builtin_code k)), s) \<and>
         get_objs k (snd (remove_obj env k obj s)) = get_objs k s \<and>
         get_objs k (snd (rename_obj env k obj n s)) = get_objs k s"
  using assms by (auto simp: remove_obj_def rename_obj_def check_builtin_obj_def)

theorem remove_rename_builtin_protected_witness:
  "(builtin demo_builtin \<or> \<not> default_flag demo_builtin) \<and>
   remove_obj demo_env SERVICES demo_builtin demo_both = (Inl (FirewallError BUILTIN_SERVICE), demo_both) \<and>
   rename_obj demo_env SERVICES demo_builtin ''sshd'' demo_both
     = (Inl (FirewallError BUILTIN_SERVICE), demo_both)"
proof -
  have h: "builtin demo_builtin \<or> \<not> default_flag demo_builtin"
    by (simp add: demo_builtin_def)
  show ?thesis
    using h remove_rename_builtin_protected [OF h, of demo_env SERVICES demo_both "''sshd''"]
    by simp
qed

subsection \<open>A created or modified file\<close>

text \<open>
  C5. For a path that exists and whose reader raises, \<^verbatim>\<open>update_*_from_path\<close> returns
  \<^verbatim>\<open>(None, None)\<close>, raises nothing, and leaves the state as it was.
\<close>

theorem update_obj_from_path_reader_fails:
  assumes "nm \<in> files s" and "reader env k (basename nm) (dirname nm) = Inl e"
  shows "update_obj_from_path env k nm s = ((None, None), s)"
  using assms by (simp add: update_obj_from_path_def Let_def)

lemma demo_basename: "basename ''/etc/firewalld/services/bad.xml'' = ''bad.xml''"
  by (simp add: basename_def)

lemma demo_dirname: "dirname ''/etc/firewalld/services/bad.xml'' = ''/etc/firewalld/services''"
  by (simp add: dirname_def)

theorem update_obj_from_path_reader_fails_witness:
  "''/etc/firewalld/services/bad.xml'' \<in> files (demo_both\<lparr>files := {''/etc/firewalld/services/bad.xml''}\<rparr>) \<and>
   reader demo_env SERVICES (basename ''/etc/firewalld/services/bad.xml'')
     (dirname ''/etc/firewalld/services/bad.xml'') = Inl (OtherException ''not well-formed'') \<and>
   update_obj_from_path demo_env SERVICES ''/etc/firewalld/services/bad.xml''
     (demo_both\<lparr>files := {''/etc/firewalld/services/bad.xml''}\<rparr>)
     = ((None, None), demo_both\<lparr>files := {''/etc/firewalld/services/bad.xml''}\<rparr>)"
proof -
  have 1: "''/etc/firewalld/services/bad.xml''
            \<in> files (demo_both\<lparr>files := {''/etc/firewalld/services/bad.xml''}\<rparr>)"
    by simp
  have 2: "reader demo_env SERVICES (basename ''/etc/firewalld/services/bad.xml'')
             (dirname ''/etc/firewalld/services/bad.xml'') = Inl (OtherException ''not well-formed'')"
    by (simp add: demo_basename demo_env_def)
  show ?thesis using 1 2 update_obj_from_path_reader_fails [OF 1 2] by simp
qed

text \<open>
  C9. A file that exists under the custom directory of the kind (for zones and policies,
  below it), whose reader succeeds and whose name (for zones and policies in a
  subdirectory, the derived name) is in the custom dictionary: \<^verbatim>\<open>update_*_from_path\<close>
  returns \<^verbatim>\<open>"update"\<close> with the object read, its \<^verbatim>\<open>default\<close> replaced by that of the
  entry that was registered, and stores that object in the custom dictionary.
\<close>

theorem update_obj_from_path_keeps_default:
  assumes "nm \<in> files s"
    and "is_custom_path env k (dirname nm)"
    and "reader env k (basename nm) (dirname nm) = Inr obj0"
    and "obj = (if hierarchical k \<and> length (dirname nm) > length (etc_dir env k)
                then obj0\<lparr>name := basename (dirname nm) @ ''/''
                       @ take (length (basename (basename nm)) - 4) (basename (basename nm))\<rparr>
                else obj0)"
    and "map_of (custom s k) (name obj) = Some old"
  shows "fst (update_obj_from_path env k nm s)
           = (Some ''update'', Some (obj\<lparr>default_flag := default_flag old\<rparr>)) \<and>
         map_of (custom (snd (update_obj_from_path env k nm s)) k) (name obj)
           = Some (obj\<lparr>default_flag := default_flag old\<rparr>) \<and>
         builtins (snd (update_obj_from_path env k nm s)) = builtins s"
proof -
  have obj: "obj = (if hierarchical k \<and> prefix (etc_dir env k) (dirname nm)
                       \<and> length (dirname nm) > length (etc_dir env k)
                    then obj0\<lparr>name := basename (dirname nm) @ ''/''
                       @ take (length (basename (basename nm)) - 4) (basename (basename nm))\<rparr>
                    else obj0)"
    using assms(2,4) by (auto simp: is_custom_path_def)
  show ?thesis
    unfolding update_obj_from_path_def Let_def obj [symmetric]
    using assms(1,2,3,5) by (simp add: obj [symmetric] update_conv)
qed

lemma demo_basename_ssh: "basename ''/etc/firewalld/services/ssh.xml'' = ''ssh.xml''"
  by (simp add: basename_def)

lemma demo_dirname_ssh: "dirname ''/etc/firewalld/services/ssh.xml'' = ''/etc/firewalld/services''"
  by (simp add: dirname_def)

theorem update_obj_from_path_keeps_default_witness:
  "fst (update_obj_from_path demo_env SERVICES ''/etc/firewalld/services/ssh.xml'' demo_both)
     = (Some ''update'',
        Some \<lparr>name = ''ssh'', filename = ''ssh.xml'', path = ''/etc/firewalld/services'',
              builtin = False, default_flag = True, payload = 7\<rparr>) \<and>
   map_of (custom (snd (update_obj_from_path demo_env SERVICES ''/etc/firewalld/services/ssh.xml''
                          demo_both)) SERVICES) ''ssh''
     = Some \<lparr>name = ''ssh'', filename = ''ssh.xml'', path = ''/etc/firewalld/services'',
             builtin = False, default_flag = True, payload = 7\<rparr>"
proof -
  let ?nm = "''/etc/firewalld/services/ssh.xml''"
  let ?obj0 = "\<lparr>name = ''ssh'', filename = ''ssh.xml'', path = ''/etc/firewalld/services'',
                builtin = False, default_flag = False, payload = 7::nat\<rparr>"
  have 1: "?nm \<in> files demo_both" by (simp add: demo_both_def)
  have 2: "is_custom_path demo_env SERVICES (dirname ?nm)"
    by (simp add: demo_dirname_ssh demo_is_custom_path)
  have 3: "reader demo_env SERVICES (basename ?nm) (dirname ?nm) = Inr ?obj0"
    by (simp add: demo_basename_ssh demo_dirname_ssh demo_env_def)
  have 4: "?obj0 = (if hierarchical SERVICES \<and> length (dirname ?nm) > length (etc_dir demo_env SERVICES)
                then ?obj0\<lparr>name := basename (dirname ?nm) @ ''/''
                       @ take (length (basename (basename ?nm)) - 4) (basename (basename ?nm))\<rparr>
                else ?obj0)"
    by (simp add: hierarchical_def)
  have 5: "map_of (custom demo_both SERVICES) (name ?obj0) = Some demo_custom"
    by (simp add: demo_both_def)
  show ?thesis
    using update_obj_from_path_keeps_default [OF 1 2 3 4 5]
    by (simp add: demo_custom_def)
qed

subsection \<open>Editing a builtin object\<close>

lemma set_obj_config_result:
  assumes "set_obj_config env k obj conf s = (Inr x, s')"
  shows "\<exists>p x0 s1.
           x0 = (if builtin obj
                 then (if path obj \<noteq> etc_dir env k
                       then obj\<lparr>path := etc_dir env k, builtin := False, default_flag := False\<rparr>
                       else obj\<lparr>path := etc_dir env k, builtin := False\<rparr>)
                 else obj) \<and>
           import_config env k x0 conf (get_all_io_objects_dict s) = Inr p \<and>
           x = x0\<lparr>payload := p\<rparr> \<and>
           full_check_config env [(k, [x])] s = (Inr (), s1) \<and>
           writer env k x = None \<and>
           s' = (add_obj k x s1)\<lparr>files := insert (path_join (path x) (filename x)) (files (add_obj k x s1)),
                                 trace := trace (add_obj k x s1) @ [Written k x]\<rparr>"
proof -
  define x0 where "x0 = (if builtin obj
               then (let x = obj\<lparr>path := etc_dir env k, builtin := False\<rparr>
                     in if path obj \<noteq> path x then x\<lparr>default_flag := False\<rparr> else x)
               else obj)"
  have x0: "x0 = (if builtin obj
                 then (if path obj \<noteq> etc_dir env k
                       then obj\<lparr>path := etc_dir env k, builtin := False, default_flag := False\<rparr>
                       else obj\<lparr>path := etc_dir env k, builtin := False\<rparr>)
                 else obj)"
    by (simp add: x0_def Let_def)
  have eq: "set_obj_config env k obj conf s =
     (case import_config env k x0 conf (get_all_io_objects_dict s) of
           Inl e \<Rightarrow> (Inl e, s)
         | Inr p \<Rightarrow>
              (case full_check_config env [(k, [x0\<lparr>payload := p\<rparr>])] s of
                   (Inl e, s1) \<Rightarrow> (Inl e, s1)
                 | (Inr u, s1) \<Rightarrow>
                      (case writer env k (x0\<lparr>payload := p\<rparr>) of
                           Some e \<Rightarrow> (Inl e, add_obj k (x0\<lparr>payload := p\<rparr>) s1)
                         | None \<Rightarrow>
                             (Inr (x0\<lparr>payload := p\<rparr>),
                              (add_obj k (x0\<lparr>payload := p\<rparr>) s1)
                                \<lparr>files := insert (path_join (path (x0\<lparr>payload := p\<rparr>))
                                                   (filename (x0\<lparr>payload := p\<rparr>)))
                                            (files (add_obj k (x0\<lparr>payload := p\<rparr>) s1)),
                                 trace := trace (add_obj k (x0\<lparr>payload := p\<rparr>) s1)
                                            @ [Written k (x0\<lparr>payload := p\<rparr>)]\<rparr>))))"
    unfolding set_obj_config_def x0_def Let_def ..
  from assms obtain p where p: "import_config env k x0 conf (get_all_io_objects_dict s) = Inr p"
    unfolding eq by (cases "import_config env k x0 conf (get_all_io_objects_dict s)") auto
  obtain r s1 where fc: "full_check_config env [(k, [x0\<lparr>payload := p\<rparr>])] s = (r, s1)"
    by fastforce
  from assms p fc have r: "r = Inr ()" unfolding eq by (cases r) auto
  from assms p fc r have w: "writer env k (x0\<lparr>payload := p\<rparr>) = None"
    unfolding eq by (cases "writer env k (x0\<lparr>payload := p\<rparr>)") auto
  from assms p fc r w have "x = x0\<lparr>payload := p\<rparr>"
    and "s' = (add_obj k (x0\<lparr>payload := p\<rparr>) s1)
                \<lparr>files := insert (path_join (path (x0\<lparr>payload := p\<rparr>))
                                   (filename (x0\<lparr>payload := p\<rparr>)))
                            (files (add_obj k (x0\<lparr>payload := p\<rparr>) s1)),
                 trace := trace (add_obj k (x0\<lparr>payload := p\<rparr>) s1)
                            @ [Written k (x0\<lparr>payload := p\<rparr>)]\<rparr>"
    unfolding eq by auto
  with x0 p fc r w show ?thesis by blast
qed

text \<open>
  C10. When \<^verbatim>\<open>set_*_config\<close> on a builtin object returns, the object it returns is not
  builtin, has the custom directory of the kind as path, is registered under its name in
  the custom dictionary, and its \<^verbatim>\<open>default\<close> is false when the path of the original
  differs from the custom directory and that of the original otherwise.
\<close>

theorem set_obj_config_builtin:
  assumes "builtin obj" and "set_obj_config env k obj conf s = (Inr x, s')"
  shows "\<not> builtin x \<and> path x = etc_dir env k \<and>
         default_flag x = (if path obj \<noteq> etc_dir env k then False else default_flag obj) \<and>
         name x = name obj \<and> filename x = filename obj \<and>
         map_of (custom s' k) (name obj) = Some x \<and>
         get_obj k (name obj) s' = Inr x"
proof -
  from set_obj_config_result [OF assms(2)] assms(1) obtain p s1 where
    x: "x = (if path obj \<noteq> etc_dir env k
             then obj\<lparr>path := etc_dir env k, builtin := False, default_flag := False\<rparr>
             else obj\<lparr>path := etc_dir env k, builtin := False\<rparr>)\<lparr>payload := p\<rparr>"
    and s': "s' = (add_obj k x s1)\<lparr>files := insert (path_join (path x) (filename x)) (files (add_obj k x s1)),
                                 trace := trace (add_obj k x s1) @ [Written k x]\<rparr>"
    by auto
  have nb: "\<not> builtin x" and nm: "name x = name obj" using x by auto
  have m: "map_of (custom s' k) (name obj) = Some x"
    using nb nm s' by (simp add: add_obj_def update_conv)
  show ?thesis using x m nb nm by (auto simp: get_obj_def)
qed

lemma demo_get_all:
  "get_all_io_objects_dict demo_both = (\<lambda>k. if k = SERVICES then [(''ssh'', demo_custom)] else [])"
  by (rule ext) (simp add: get_all_io_objects_dict_def get_objs_def get_obj_def demo_both_def
      List.map_filter_def)

lemma demo_set_obj_config:
  "fst (set_obj_config demo_env SERVICES demo_builtin 5 demo_both)
     = Inr \<lparr>name = ''ssh'', filename = ''ssh.xml'', path = ''/etc/firewalld/services'',
            builtin = False, default_flag = False, payload = 5\<rparr>"
  by (simp add: set_obj_config_def full_check_config_def demo_get_all check_order_def
      demo_env_def demo_dir_def demo_builtin_def demo_custom_def Let_def add_obj_def)

theorem set_obj_config_builtin_witness:
  "builtin demo_builtin \<and>
   fst (set_obj_config demo_env SERVICES demo_builtin 5 demo_both)
     = Inr \<lparr>name = ''ssh'', filename = ''ssh.xml'', path = ''/etc/firewalld/services'',
            builtin = False, default_flag = False, payload = 5\<rparr> \<and>
   get_obj SERVICES ''ssh'' (snd (set_obj_config demo_env SERVICES demo_builtin 5 demo_both))
     = Inr \<lparr>name = ''ssh'', filename = ''ssh.xml'', path = ''/etc/firewalld/services'',
            builtin = False, default_flag = False, payload = 5\<rparr>"
proof -
  have 1: "builtin demo_builtin" by (simp add: demo_builtin_def)
  have 2: "set_obj_config demo_env SERVICES demo_builtin 5 demo_both
             = (Inr \<lparr>name = ''ssh'', filename = ''ssh.xml'', path = ''/etc/firewalld/services'',
                     builtin = False, default_flag = False, payload = 5\<rparr>,
                snd (set_obj_config demo_env SERVICES demo_builtin 5 demo_both))"
    using demo_set_obj_config by (simp add: prod_eq_iff)
  show ?thesis
    using 1 demo_set_obj_config set_obj_config_builtin [OF 1 2]
    by (simp add: demo_builtin_def)
qed

subsection \<open>A deleted custom file\<close>

lemma keys_are_names_update:
  "keys_are_names d \<Longrightarrow> name obj = n \<Longrightarrow> keys_are_names (AList.update n obj d)"
  by (induction d) (auto simp: keys_are_names_def)

lemma keys_are_names_delete:
  "keys_are_names d \<Longrightarrow> keys_are_names (AList.delete x d)"
  by (induction d) (auto simp: keys_are_names_def)

lemma keys_are_names_find:
  "keys_are_names d \<Longrightarrow> find P d = Some (x, obj) \<Longrightarrow> name obj = x"
  by (induction d) (auto simp: keys_are_names_def split: if_splits)

lemma add_obj_keys_are_names:
  assumes "\<And>k. keys_are_names (custom s k)" and "\<And>k. keys_are_names (builtins s k)"
  shows "keys_are_names (custom (add_obj k obj s) k') \<and> keys_are_names (builtins (add_obj k obj s) k')"
  using assms by (simp add: add_obj_def keys_are_names_update)

lemma update_obj_from_path_keys_are_names:
  assumes "\<And>k. keys_are_names (custom s k)" and "\<And>k. keys_are_names (builtins s k)"
  shows "keys_are_names (custom (snd (update_obj_from_path env k nm s)) k') \<and>
         keys_are_names (builtins (snd (update_obj_from_path env k nm s)) k')"
  unfolding update_obj_from_path_def Let_def
  by (simp add: assms add_obj_def keys_are_names_update keys_are_names_delete
      split: option.split sum.split prod.split)

text \<open>
  C4. A path that does not exist, whose directory is the custom directory of the kind
  (for zones and policies, starts with it), and a custom entry with its file name (the
  first in the dictionary), registered under its own name (\<open>keys_are_names\<close> gives
  that, and \<^verbatim>\<open>add_*\<close> and \<^verbatim>\<open>update_*_from_path\<close> keep it): the entry is
  deleted from the custom dictionary; when the builtin dictionary has the name,
  \<^verbatim>\<open>update_*_from_path\<close> returns \<^verbatim>\<open>"update"\<close> with the builtin object, which lookup
  gives from then on; when it has not, it returns \<^verbatim>\<open>"remove"\<close> with the custom object.
\<close>

theorem update_obj_from_path_custom_deleted:
  assumes "nm \<notin> files s"
    and "is_custom_path env k (dirname nm)"
    and "find (\<lambda>(x, obj). filename obj = basename nm) (custom s k) = Some (x, obj)"
    and "name obj = x"
  shows "(map_of (builtins s k) (name obj) = Some b \<longrightarrow>
            fst (update_obj_from_path env k nm s) = (Some ''update'', Some b) \<and>
            get_obj k (name obj) (snd (update_obj_from_path env k nm s)) = Inr b) \<and>
         (map_of (builtins s k) (name obj) = None \<longrightarrow>
            fst (update_obj_from_path env k nm s) = (Some ''remove'', Some obj)) \<and>
         map_of (custom (snd (update_obj_from_path env k nm s)) k) x = None \<and>
         custom (snd (update_obj_from_path env k nm s)) k = AList.delete x (custom s k) \<and>
         builtins (snd (update_obj_from_path env k nm s)) = builtins s"
proof -
  let ?s1 = "s\<lparr>custom := (custom s)(k := AList.delete x (custom s k))\<rparr>"
  have r: "update_obj_from_path env k nm s =
             (case map_of (builtins s k) (name obj) of
                Some b \<Rightarrow> ((Some ''update'', Some b), ?s1)
              | None \<Rightarrow> ((Some ''remove'', Some obj), ?s1))"
    using assms(1,2,3) by (simp add: update_obj_from_path_def Let_def)
  have c: "map_of (custom ?s1 k) x = None" by (simp add: delete_conv)
  show ?thesis
    using c assms(4) by (auto simp: r get_obj_def split: option.splits)
qed

theorem update_obj_from_path_custom_deleted_witness:
  "fst (update_obj_from_path demo_env SERVICES ''/etc/firewalld/services/ssh.xml''
          (demo_both\<lparr>files := {}\<rparr>)) = (Some ''update'', Some demo_builtin) \<and>
   get_obj SERVICES ''ssh'' (snd (update_obj_from_path demo_env SERVICES
          ''/etc/firewalld/services/ssh.xml'' (demo_both\<lparr>files := {}\<rparr>))) = Inr demo_builtin \<and>
   fst (update_obj_from_path demo_env SERVICES ''/etc/firewalld/services/ssh.xml''
          demo_custom_only) = (Some ''remove'', Some demo_custom) \<and>
   map_of (custom (snd (update_obj_from_path demo_env SERVICES ''/etc/firewalld/services/ssh.xml''
          demo_custom_only)) SERVICES) ''ssh'' = None"
proof -
  let ?nm = "''/etc/firewalld/services/ssh.xml''"
  have 1: "?nm \<notin> files (demo_both\<lparr>files := {}\<rparr>)" "?nm \<notin> files demo_custom_only"
    by (simp_all add: demo_custom_only_def)
  have 2: "is_custom_path demo_env SERVICES (dirname ?nm)"
    by (simp add: demo_dirname_ssh demo_is_custom_path)
  have 3: "find (\<lambda>(x, obj). filename obj = basename ?nm) (custom (demo_both\<lparr>files := {}\<rparr>) SERVICES)
             = Some (''ssh'', demo_custom)"
     "find (\<lambda>(x, obj). filename obj = basename ?nm) (custom demo_custom_only SERVICES)
             = Some (''ssh'', demo_custom)"
    by (simp_all add: demo_basename_ssh demo_both_def demo_custom_def demo_custom_only_def)
  have 4: "name demo_custom = ''ssh''" by (simp add: demo_custom_def)
  have 5: "map_of (builtins (demo_both\<lparr>files := {}\<rparr>) SERVICES) (name demo_custom) = Some demo_builtin"
    "map_of (builtins demo_custom_only SERVICES) (name demo_custom) = None"
    by (simp_all add: demo_both_def demo_custom_def demo_custom_only_def)
  show ?thesis
    using update_obj_from_path_custom_deleted [OF 1(1) 2 3(1) 4, of demo_builtin]
      update_obj_from_path_custom_deleted [OF 1(2) 2 3(2) 4] 5
    by (simp add: 4 delete_conv)
qed

subsection \<open>The order and the outcome of the full check\<close>

lemma verdict_Checked [simp]:
  "verdict env al (Checked k io_obj conf) = check_config_dict env k io_obj conf al"
  by (simp add: verdict_def)

lemma check_objs_outcome:
  "check_objs env k al d s =
     (case dropWhile (\<lambda>ev. verdict env al ev = None)
             (map (\<lambda>(n, io_obj). Checked k io_obj (export_config env k io_obj)) d) of
        [] \<Rightarrow> (Inr (), s\<lparr>trace := trace s
                  @ map (\<lambda>(n, io_obj). Checked k io_obj (export_config env k io_obj)) d\<rparr>)
      | ev # rest \<Rightarrow>
          (Inl (the (verdict env al ev)),
           s\<lparr>trace := trace s
                @ takeWhile (\<lambda>ev. verdict env al ev = None)
                    (map (\<lambda>(n, io_obj). Checked k io_obj (export_config env k io_obj)) d)
                @ [ev]\<rparr>))"
proof (induction d arbitrary: s)
  case Nil
  then show ?case by simp
next
  case (Cons it d)
  obtain n io_obj where it: "it = (n, io_obj)" by (cases it)
  let ?P = "\<lambda>ev. verdict env al ev = None"
  let ?f = "\<lambda>(n, io_obj). Checked k io_obj (export_config env k io_obj)"
  let ?ev0 = "Checked k io_obj (export_config env k io_obj)"
  let ?s1 = "s\<lparr>trace := trace s @ [?ev0]\<rparr>"
  define dws where "dws = dropWhile ?P (map ?f d)"
  define tws where "tws = takeWhile ?P (map ?f d)"
  have IH: "check_objs env k al d ?s1 =
              (case dws of
                 [] \<Rightarrow> (Inr (), ?s1\<lparr>trace := trace ?s1 @ map ?f d\<rparr>)
               | ev # rest \<Rightarrow> (Inl (the (verdict env al ev)), ?s1\<lparr>trace := trace ?s1 @ tws @ [ev]\<rparr>))"
    unfolding dws_def tws_def by (rule Cons.IH)
  show ?case
  proof (cases "check_config_dict env k io_obj (export_config env k io_obj) al")
    case None
    have step: "check_objs env k al (it # d) s = check_objs env k al d ?s1"
      using it None by (simp add: Let_def)
    have dw: "dropWhile ?P (map ?f (it # d)) = dws"
      and tw: "takeWhile ?P (map ?f (it # d)) = ?ev0 # tws"
      using it None by (simp_all add: dws_def tws_def)
    show ?thesis
      unfolding step IH dw tw by (cases dws) (simp_all add: it)
  next
    case (Some e)
    then show ?thesis using it by (simp add: Let_def)
  qed
qed

lemma check_kinds_outcome:
  "check_kinds env al ks s =
     (case dropWhile (\<lambda>ev. verdict env al ev = None) (check_calls env al ks) of
        [] \<Rightarrow> (Inr (), s\<lparr>trace := trace s @ check_calls env al ks\<rparr>)
      | ev # rest \<Rightarrow>
          (Inl (the (verdict env al ev)),
           s\<lparr>trace := trace s
                @ takeWhile (\<lambda>ev. verdict env al ev = None) (check_calls env al ks) @ [ev]\<rparr>))"
proof (induction ks arbitrary: s)
  case Nil
  then show ?case by (simp add: check_calls_def)
next
  case (Cons k ks)
  let ?P = "\<lambda>ev. verdict env al ev = None"
  let ?blk = "map (\<lambda>(n, io_obj). Checked k io_obj (export_config env k io_obj)) (al k)"
  let ?s1 = "s\<lparr>trace := trace s @ ?blk\<rparr>"
  define dws where "dws = dropWhile ?P (check_calls env al ks)"
  define tws where "tws = takeWhile ?P (check_calls env al ks)"
  define dwb where "dwb = dropWhile ?P ?blk"
  define twb where "twb = takeWhile ?P ?blk"
  have IH: "check_kinds env al ks ?s1 =
              (case dws of
                 [] \<Rightarrow> (Inr (), ?s1\<lparr>trace := trace ?s1 @ check_calls env al ks\<rparr>)
               | ev # rest \<Rightarrow> (Inl (the (verdict env al ev)), ?s1\<lparr>trace := trace ?s1 @ tws @ [ev]\<rparr>))"
    unfolding dws_def tws_def by (rule Cons.IH)
  have blk: "check_objs env k al (al k) s =
               (case dwb of
                  [] \<Rightarrow> (Inr (), ?s1)
                | ev # rest \<Rightarrow> (Inl (the (verdict env al ev)), s\<lparr>trace := trace s @ twb @ [ev]\<rparr>))"
    unfolding dwb_def twb_def by (rule check_objs_outcome)
  have calls: "check_calls env al (k # ks) = ?blk @ check_calls env al ks"
    by (simp add: check_calls_def)
  show ?case
  proof (cases dwb)
    case Nil
    then have all: "\<And>x. x \<in> set ?blk \<Longrightarrow> ?P x"
      unfolding dwb_def by (simp only: dropWhile_eq_Nil_conv)
    have tw: "takeWhile ?P (?blk @ check_calls env al ks) = ?blk @ tws"
      unfolding tws_def using all by (rule takeWhile_append2)
    have dw: "dropWhile ?P (?blk @ check_calls env al ks) = dws"
      unfolding dws_def using all by (rule dropWhile_append2)
    have step: "check_kinds env al (k # ks) s = check_kinds env al ks ?s1"
      by (simp add: blk Nil)
    show ?thesis
      unfolding step IH calls tw dw by (cases dws) simp_all
  next
    case (Cons ev rest)
    have "ev \<in> set (dropWhile ?P ?blk)"
      using Cons unfolding dwb_def by simp
    then have x1: "ev \<in> set ?blk" by (rule set_dropWhileD)
    have "dropWhile ?P ?blk \<noteq> []" using Cons unfolding dwb_def by simp
    then have "\<not> ?P (hd (dropWhile ?P ?blk))" by (rule hd_dropWhile)
    then have x2: "\<not> ?P ev" using Cons unfolding dwb_def by simp
    have tw: "takeWhile ?P (?blk @ check_calls env al ks) = twb"
      unfolding twb_def using x1 x2 by (rule takeWhile_append1)
    have dw: "dropWhile ?P (?blk @ check_calls env al ks) = dwb @ check_calls env al ks"
      unfolding dwb_def using x1 x2 by (rule dropWhile_append1)
    have step: "check_kinds env al (k # ks) s
                  = (Inl (the (verdict env al ev)), s\<lparr>trace := trace s @ twb @ [ev]\<rparr>)"
      by (simp add: blk Cons)
    show ?thesis
      unfolding step calls tw dw by (simp add: Cons)
  qed
qed

lemma get_objs_set: "set (get_objs k s) = fst ` set (custom s k) \<union> fst ` set (builtins s k)"
  by (simp add: get_objs_def)

lemma map_of_map_filter_names:
  "map_of (List.map_filter (\<lambda>n. case g n of Inr obj \<Rightarrow> Some (n, obj) | Inl e \<Rightarrow> None) ns) m
     = (if m \<in> set ns then (case g m of Inr obj \<Rightarrow> Some obj | Inl e \<Rightarrow> None) else None)"
  by (induction ns) (auto simp: map_filter_simps split: sum.splits)

lemma key_iff: "n \<in> fst ` set d \<longleftrightarrow> map_of d n \<noteq> None"
  by (simp add: map_of_eq_None_iff)

lemma get_obj_Inl_iff:
  "(\<exists>e. get_obj k n s = Inl e) \<longleftrightarrow> n \<notin> set (get_objs k s)"
  by (auto simp: get_obj_def get_objs_set key_iff split: option.splits)

lemma get_all_io_objects_dict_map_of:
  "map_of (get_all_io_objects_dict s k) n
     = (case get_obj k n s of Inr obj \<Rightarrow> Some obj | Inl e \<Rightarrow> None)"
proof (cases "n \<in> set (get_objs k s)")
  case True
  then show ?thesis by (simp add: get_all_io_objects_dict_def map_of_map_filter_names)
next
  case False
  then obtain e where "get_obj k n s = Inl e" using get_obj_Inl_iff by blast
  then show ?thesis using False by (simp add: get_all_io_objects_dict_def map_of_map_filter_names)
qed

lemma map_filter_keys:
  "(\<And>n. n \<in> set ns \<Longrightarrow> \<exists>obj. g n = Inr obj) \<Longrightarrow>
   map fst (List.map_filter (\<lambda>n. case g n of Inr obj \<Rightarrow> Some (n, obj) | Inl e \<Rightarrow> None) ns) = ns"
proof (induction ns)
  case Nil
  then show ?case by (simp add: map_filter_simps)
next
  case (Cons a ns)
  from Cons.prems [of a] obtain obj where "g a = Inr obj" by auto
  moreover have "map fst (List.map_filter (\<lambda>n. case g n of Inr obj \<Rightarrow> Some (n, obj) | Inl e \<Rightarrow> None) ns) = ns"
    using Cons.prems by (intro Cons.IH) auto
  ultimately show ?case by (simp add: map_filter_simps)
qed

lemma get_all_io_objects_dict_keys:
  "map fst (get_all_io_objects_dict s k) = get_objs k s"
  unfolding get_all_io_objects_dict_def
proof (rule map_filter_keys)
  fix n assume "n \<in> set (get_objs k s)"
  then have "\<not> (\<exists>e. get_obj k n s = Inl e)" using get_obj_Inl_iff by blast
  then show "\<exists>obj. get_obj k n s = Inr obj" by (cases "get_obj k n s") auto
qed

lemma mix_in_objs_map_of:
  "map_of (mix_in_objs d objs) n
     = (case filter (\<lambda>obj. name obj = n) objs of [] \<Rightarrow> map_of d n | c # cs \<Rightarrow> Some (last (c # cs)))"
proof (induction objs arbitrary: d)
  case Nil
  then show ?case by simp
next
  case (Cons obj objs)
  show ?case
    by (cases "filter (\<lambda>obj. name obj = n) objs"; cases "name obj = n")
      (simp_all add: Cons.IH update_conv)
qed

lemma mix_in_map_of:
  "map_of (mix_in al extra k) n
     = (case filter (\<lambda>obj. name obj = n) (concat (map snd (filter (\<lambda>p. fst p = k) extra))) of
          [] \<Rightarrow> map_of (al k) n
        | c # cs \<Rightarrow> Some (last (c # cs)))"
proof (induction extra arbitrary: al)
  case Nil
  then show ?case by simp
next
  case (Cons p extra)
  obtain k' objs where p: "p = (k', objs)" by (cases p)
  let ?rest = "filter (\<lambda>obj. name obj = n) (concat (map snd (filter (\<lambda>p. fst p = k) extra)))"
  show ?case
  proof (cases "k' = k")
    case True
    show ?thesis
      by (cases ?rest; cases "filter (\<lambda>obj. name obj = n) objs")
        (simp_all add: p True Cons.IH mix_in_objs_map_of)
  next
    case False
    then show ?thesis by (cases ?rest) (simp_all add: p Cons.IH)
  qed
qed

lemma new_obj_failure_frame:
  assumes "new_obj env k n conf s = (Inl e, s')" and "\<And>x. writer env k x = None"
  shows "custom s' = custom s \<and> builtins s' = builtins s \<and> files s' = files s"
proof -
  let ?x0 = "\<lparr>name = n, filename = n @ ''.xml'', path = etc_dir env k,
              builtin = False, default_flag = True, payload = new_payload env k\<rparr>"
  show ?thesis
  proof (cases "has_key (custom s k) n \<or> has_key (builtins s k) n")
    case True
    then show ?thesis using assms(1) by (simp add: new_obj_def)
  next
    case nc: False
    show ?thesis
    proof (cases "check_name env k n")
      case (Some e')
      then show ?thesis using assms(1) nc by (simp add: new_obj_def)
    next
      case None
      show ?thesis
      proof (cases "import_config env k ?x0 conf (get_all_io_objects_dict s)")
        case (Inl e')
        then show ?thesis using assms(1) nc None by (simp add: new_obj_def)
      next
        case (Inr p)
        obtain r s1 where fc: "full_check_config env [(k, [?x0\<lparr>payload := p\<rparr>])] s = (r, s1)"
          by fastforce
        note fr = full_check_config_frame [OF fc]
        show ?thesis
        proof (cases r)
          case (Inl e')
          then show ?thesis using assms(1) nc None Inr fc fr by (simp add: new_obj_def)
        next
          case r: (Inr u)
          then show ?thesis using assms nc None Inr fc by (simp add: new_obj_def Let_def)
        qed
      qed
    qed
  qed
qed

lemma set_obj_config_failure_frame:
  assumes "set_obj_config env k obj conf s = (Inl e, s')" and "\<And>x. writer env k x = None"
  shows "custom s' = custom s \<and> builtins s' = builtins s \<and> files s' = files s"
proof -
  define x0 where "x0 = (if builtin obj
               then (let x = obj\<lparr>path := etc_dir env k, builtin := False\<rparr>
                     in if path obj \<noteq> path x then x\<lparr>default_flag := False\<rparr> else x)
               else obj)"
  have eq: "set_obj_config env k obj conf s =
     (case import_config env k x0 conf (get_all_io_objects_dict s) of
           Inl e \<Rightarrow> (Inl e, s)
         | Inr p \<Rightarrow>
              (case full_check_config env [(k, [x0\<lparr>payload := p\<rparr>])] s of
                   (Inl e, s1) \<Rightarrow> (Inl e, s1)
                 | (Inr u, s1) \<Rightarrow>
                      (case writer env k (x0\<lparr>payload := p\<rparr>) of
                           Some e \<Rightarrow> (Inl e, add_obj k (x0\<lparr>payload := p\<rparr>) s1)
                         | None \<Rightarrow>
                             (Inr (x0\<lparr>payload := p\<rparr>),
                              (add_obj k (x0\<lparr>payload := p\<rparr>) s1)
                                \<lparr>files := insert (path_join (path (x0\<lparr>payload := p\<rparr>))
                                                   (filename (x0\<lparr>payload := p\<rparr>)))
                                            (files (add_obj k (x0\<lparr>payload := p\<rparr>) s1)),
                                 trace := trace (add_obj k (x0\<lparr>payload := p\<rparr>) s1)
                                            @ [Written k (x0\<lparr>payload := p\<rparr>)]\<rparr>))))"
    unfolding set_obj_config_def x0_def Let_def ..
  show ?thesis
  proof (cases "import_config env k x0 conf (get_all_io_objects_dict s)")
    case (Inl e')
    then show ?thesis using assms(1) unfolding eq by simp
  next
    case (Inr p)
    obtain r s1 where fc: "full_check_config env [(k, [x0\<lparr>payload := p\<rparr>])] s = (r, s1)"
      by fastforce
    note fr = full_check_config_frame [OF fc]
    show ?thesis
    proof (cases r)
      case (Inl e')
      then show ?thesis using assms(1) Inr fc fr unfolding eq by simp
    next
      case r: (Inr u)
      then show ?thesis using assms Inr fc unfolding eq by simp
    qed
  qed
qed

text \<open>
  C6. \<^verbatim>\<open>full_check_config\<close> works on the merged dictionaries: under a kind and a name, the
  last extra object of that kind and name if there is one, else the object that lookup
  gives. It runs the validator of every object of the merged dictionaries on the exported
  configuration of the object and the merged dictionaries, the kinds in the order address
  sets, helpers, ICMP types, services, zones, policies: when every validator passes, the
  check returns and these calls are the ones made; when one raises, the check raises its
  error and the calls made are those up to that one. The check changes neither dictionary
  and no file, and \<^verbatim>\<open>new_*\<close> and \<^verbatim>\<open>set_*_config\<close> that fail (the writer left aside, which
  runs after the object is added) leave both dictionaries as they were.
\<close>

theorem full_check_config_order:
  "(\<forall>k n. map_of (merged s extra k) n =
      (case filter (\<lambda>obj. name obj = n) (concat (map snd (filter (\<lambda>p. fst p = k) extra))) of
         [] \<Rightarrow> (case get_obj k n s of Inr obj \<Rightarrow> Some obj | Inl e \<Rightarrow> None)
       | c # cs \<Rightarrow> Some (last (c # cs)))) \<and>
   (list_all (\<lambda>ev. verdict env (merged s extra) ev = None)
      (check_calls env (merged s extra) [IPSETS, HELPERS, ICMPTYPES, SERVICES, ZONES, POLICIES]) \<longrightarrow>
    full_check_config env extra s =
      (Inr (), s\<lparr>trace := trace s
         @ check_calls env (merged s extra) [IPSETS, HELPERS, ICMPTYPES, SERVICES, ZONES, POLICIES]\<rparr>)) \<and>
   (\<forall>pre ev post e.
      check_calls env (merged s extra) [IPSETS, HELPERS, ICMPTYPES, SERVICES, ZONES, POLICIES]
        = pre @ ev # post \<and>
      list_all (\<lambda>ev. verdict env (merged s extra) ev = None) pre \<and>
      verdict env (merged s extra) ev = Some e \<longrightarrow>
      full_check_config env extra s = (Inl e, s\<lparr>trace := trace s @ pre @ [ev]\<rparr>)) \<and>
   custom (snd (full_check_config env extra s)) = custom s \<and>
   builtins (snd (full_check_config env extra s)) = builtins s \<and>
   files (snd (full_check_config env extra s)) = files s \<and>
   (\<forall>k n obj conf e.
      (\<forall>x. writer env k x = None) \<longrightarrow>
      (fst (new_obj env k n conf s) = Inl e \<longrightarrow>
         custom (snd (new_obj env k n conf s)) = custom s \<and>
         builtins (snd (new_obj env k n conf s)) = builtins s) \<and>
      (fst (set_obj_config env k obj conf s) = Inl e \<longrightarrow>
         custom (snd (set_obj_config env k obj conf s)) = custom s \<and>
         builtins (snd (set_obj_config env k obj conf s)) = builtins s))"
proof (intro conjI allI impI)
  let ?P = "\<lambda>ev. verdict env (merged s extra) ev = None"
  let ?calls = "check_calls env (merged s extra) [IPSETS, HELPERS, ICMPTYPES, SERVICES, ZONES, POLICIES]"
  have fc: "full_check_config env extra s =
     (case dropWhile ?P ?calls of
        [] \<Rightarrow> (Inr (), s\<lparr>trace := trace s @ ?calls\<rparr>)
      | ev # rest \<Rightarrow>
          (Inl (the (verdict env (merged s extra) ev)),
           s\<lparr>trace := trace s @ takeWhile ?P ?calls @ [ev]\<rparr>))"
    unfolding full_check_config_def merged_def check_order_def by (rule check_kinds_outcome)
  show "map_of (merged s extra k) n =
      (case filter (\<lambda>obj. name obj = n) (concat (map snd (filter (\<lambda>p. fst p = k) extra))) of
         [] \<Rightarrow> (case get_obj k n s of Inr obj \<Rightarrow> Some obj | Inl e \<Rightarrow> None)
       | c # cs \<Rightarrow> Some (last (c # cs)))" for k n
    unfolding merged_def mix_in_map_of get_all_io_objects_dict_map_of ..
  show "full_check_config env extra s = (Inr (), s\<lparr>trace := trace s @ ?calls\<rparr>)"
    if "list_all ?P ?calls"
  proof -
    have dw: "dropWhile ?P ?calls = []"
      using that by (simp only: dropWhile_eq_Nil_conv list_all_iff)
    show ?thesis unfolding fc dw by simp
  qed
  show "full_check_config env extra s = (Inl e, s\<lparr>trace := trace s @ pre @ [ev]\<rparr>)"
    if h: "?calls = pre @ ev # post \<and> list_all ?P pre \<and> verdict env (merged s extra) ev = Some e"
    for pre ev post e
  proof -
    have all: "\<And>x. x \<in> set pre \<Longrightarrow> ?P x" using h by (simp add: list_all_iff)
    have nP: "\<not> ?P ev" using h by simp
    have "dropWhile ?P (pre @ ev # post) = dropWhile ?P (ev # post)"
      using all by (rule dropWhile_append2)
    then have dw: "dropWhile ?P ?calls = ev # post" using h nP by simp
    have "takeWhile ?P (pre @ ev # post) = pre @ takeWhile ?P (ev # post)"
      using all by (rule takeWhile_append2)
    then have tw: "takeWhile ?P ?calls = pre" using h nP by simp
    show ?thesis unfolding fc dw tw using h by simp
  qed
  obtain r s1 where r: "full_check_config env extra s = (r, s1)" by fastforce
  note fr = full_check_config_frame [OF r]
  show "custom (snd (full_check_config env extra s)) = custom s"
    and "builtins (snd (full_check_config env extra s)) = builtins s"
    and "files (snd (full_check_config env extra s)) = files s"
    using fr r by simp_all
next
  fix k n conf e
  assume w: "\<forall>x. writer env k x = None" and f: "fst (new_obj env k n conf s) = Inl e"
  have "new_obj env k n conf s = (Inl e, snd (new_obj env k n conf s))"
    using f by (simp add: prod_eq_iff)
  from new_obj_failure_frame [OF this] w
  show "custom (snd (new_obj env k n conf s)) = custom s"
    and "builtins (snd (new_obj env k n conf s)) = builtins s" by simp_all
next
  fix k obj conf e
  assume w: "\<forall>x. writer env k x = None" and f: "fst (set_obj_config env k obj conf s) = Inl e"
  have "set_obj_config env k obj conf s = (Inl e, snd (set_obj_config env k obj conf s))"
    using f by (simp add: prod_eq_iff)
  from set_obj_config_failure_frame [OF this] w
  show "custom (snd (set_obj_config env k obj conf s)) = custom s"
    and "builtins (snd (set_obj_config env k obj conf s)) = builtins s" by simp_all
qed

lemma demo_multi_get_all:
  "get_all_io_objects_dict demo_multi
     = (\<lambda>k. if k = IPSETS then [(''office'', demo_office)]
            else if k = SERVICES then [(''ssh'', demo_builtin)]
            else if k = ZONES then [(''home'', demo_home)] else [])"
  by (rule ext)
    (simp add: get_all_io_objects_dict_def get_objs_def get_obj_def demo_multi_def
      List.map_filter_def)

lemma demo_multi_calls:
  "check_calls demo_env (merged demo_multi []) [IPSETS, HELPERS, ICMPTYPES, SERVICES, ZONES, POLICIES]
     = [Checked IPSETS demo_office 3, Checked SERVICES demo_builtin 1, Checked ZONES demo_home 4]"
  by (simp add: check_calls_def merged_def demo_multi_get_all demo_env_def demo_office_def
      demo_builtin_def demo_home_def)

lemma demo_multi_merged:
  "merged demo_multi [(SERVICES, [demo_candidate])]
     = (\<lambda>k. if k = IPSETS then [(''office'', demo_office)]
            else if k = SERVICES then [(''ssh'', demo_candidate)]
            else if k = ZONES then [(''home'', demo_home)] else [])"
  by (rule ext) (simp add: merged_def demo_multi_get_all demo_candidate_def)

lemma demo_multi_calls_candidate:
  "check_calls demo_env (merged demo_multi [(SERVICES, [demo_candidate])])
       [IPSETS, HELPERS, ICMPTYPES, SERVICES, ZONES, POLICIES]
     = [Checked IPSETS demo_office 3] @ Checked SERVICES demo_candidate 13 # [Checked ZONES demo_home 4]"
  unfolding check_calls_def demo_multi_merged
  by (simp add: demo_env_def demo_office_def demo_candidate_def demo_home_def)

theorem full_check_config_order_witness:
  "full_check_config demo_env [] demo_multi
     = (Inr (), demo_multi\<lparr>trace := [Checked IPSETS demo_office 3, Checked SERVICES demo_builtin 1,
                                      Checked ZONES demo_home 4]\<rparr>) \<and>
   map_of (merged demo_multi [(SERVICES, [demo_candidate])] SERVICES) ''ssh'' = Some demo_candidate \<and>
   full_check_config demo_env [(SERVICES, [demo_candidate])] demo_multi
     = (Inl (OtherException ''INVALID_TYPE''),
        demo_multi\<lparr>trace := [Checked IPSETS demo_office 3, Checked SERVICES demo_candidate 13]\<rparr>)"
proof -
  note t = full_check_config_order [where env = demo_env and s = demo_multi]
  have pass: "list_all (\<lambda>ev. verdict demo_env (merged demo_multi []) ev = None)
      (check_calls demo_env (merged demo_multi []) [IPSETS, HELPERS, ICMPTYPES, SERVICES, ZONES, POLICIES])"
    unfolding demo_multi_calls by (simp add: demo_env_def)
  have 1: "full_check_config demo_env [] demo_multi
     = (Inr (), demo_multi\<lparr>trace := [Checked IPSETS demo_office 3, Checked SERVICES demo_builtin 1,
                                      Checked ZONES demo_home 4]\<rparr>)"
    using t [where extra = "[]", THEN conjunct2, THEN conjunct1, rule_format, OF pass]
    unfolding demo_multi_calls by (simp add: demo_multi_def)
  have 2: "map_of (merged demo_multi [(SERVICES, [demo_candidate])] SERVICES) ''ssh'' = Some demo_candidate"
    using t [where extra = "[(SERVICES, [demo_candidate])]", THEN conjunct1, rule_format,
        of SERVICES "''ssh''"]
    by (simp add: demo_candidate_def)
  have fail: "check_calls demo_env (merged demo_multi [(SERVICES, [demo_candidate])])
                [IPSETS, HELPERS, ICMPTYPES, SERVICES, ZONES, POLICIES]
              = [Checked IPSETS demo_office 3] @ Checked SERVICES demo_candidate 13 # [Checked ZONES demo_home 4] \<and>
      list_all (\<lambda>ev. verdict demo_env (merged demo_multi [(SERVICES, [demo_candidate])]) ev = None)
        [Checked IPSETS demo_office 3] \<and>
      verdict demo_env (merged demo_multi [(SERVICES, [demo_candidate])])
        (Checked SERVICES demo_candidate 13) = Some (OtherException ''INVALID_TYPE'')"
    unfolding demo_multi_calls_candidate by (simp add: demo_env_def)
  have 3: "full_check_config demo_env [(SERVICES, [demo_candidate])] demo_multi
     = (Inl (OtherException ''INVALID_TYPE''),
        demo_multi\<lparr>trace := [Checked IPSETS demo_office 3, Checked SERVICES demo_candidate 13]\<rparr>)"
    using t [where extra = "[(SERVICES, [demo_candidate])]", THEN conjunct2, THEN conjunct2,
        THEN conjunct1, rule_format, OF fail]
    by (simp add: demo_multi_def)
  show ?thesis using 1 2 3 by simp
qed

subsection \<open>Replay after a failed reset\<close>

lemma written_kinds_append [simp]:
  "written_kinds (t1 @ t2) = written_kinds t1 @ written_kinds t2"
  by (induction t1 rule: written_kinds.induct) simp_all




lemma add_obj_trace [simp]: "trace (add_obj k x s) = trace s"
  by (simp add: add_obj_def)

















lemma demo_replay_reset:
  "priv_reset_defaults demo_env demo_replay = (Inl (OtherException ''IOError''), demo_reset)"
  by (auto simp: priv_reset_defaults_def reset_order_def demo_replay_def demo_reset_def
      move_to_old_def path_join_def demo_env_def demo_office_def demo_ping_def demo_web_def
      fun_eq_iff)

lemma demo_replay_get_all:
  "get_all_io_objects_dict demo_replay
     = (\<lambda>k. if k = IPSETS then [(''office'', demo_office)]
            else if k = ICMPTYPES then [(''ping'', demo_ping)]
            else if k = SERVICES then [(''web'', demo_web)] else [])"
  by (rule ext)
    (simp add: get_all_io_objects_dict_def get_objs_def get_obj_def demo_replay_def
      List.map_filter_def)

lemma demo_reset_get_all:
  "get_all_io_objects_dict demo_reset
     = (\<lambda>k. if k = IPSETS then [(''office'', demo_office_builtin)] else [])"
  by (rule ext)
    (simp add: get_all_io_objects_dict_def get_objs_def get_obj_def demo_reset_def
      List.map_filter_def)

lemma demo_replay_restore:
  "fst (restore_settings_dict demo_env (Some (get_all_io_objects_dict demo_replay))
          (firewalld_conf demo_replay) demo_reset) = Inr () \<and>
   written_kinds (trace (snd (restore_settings_dict demo_env
          (Some (get_all_io_objects_dict demo_replay)) (firewalld_conf demo_replay) demo_reset)))
     = [ICMPTYPES, IPSETS]"
  unfolding demo_replay_get_all
  apply (simp add: restore_settings_dict_def restore_order_def demo_reset_get_all)
  apply (simp add: restore_obj_def recreates_missing_def new_obj_def set_obj_config_def
      full_check_config_def check_order_def get_all_io_objects_dict_def get_objs_def get_obj_def
      List.map_filter_def add_obj_def Let_def
      demo_reset_def demo_replay_def demo_env_def demo_dir_def
      demo_office_def demo_office_builtin_def demo_ping_def demo_web_def)
  done

lemma demo_replay_reset_defaults:
  "reset_defaults demo_env demo_replay
     = (Inl (OtherException ''IOError''),
        snd (restore_settings_dict demo_env (Some (get_all_io_objects_dict demo_replay))
               (firewalld_conf demo_replay) demo_reset))"
proof -
  define R where "R = restore_settings_dict demo_env (Some (get_all_io_objects_dict demo_replay))
               (firewalld_conf demo_replay) demo_reset"
  have "fst R = Inr ()" unfolding R_def using demo_replay_restore by simp
  then have "(case R of (Inl e', s2) \<Rightarrow> (Inl e', s2)
              | (Inr u, s2) \<Rightarrow> (Inl (OtherException ''IOError''), s2))
             = (Inl (OtherException ''IOError''), snd R)"
    by (cases R) auto
  then show ?thesis
    unfolding R_def by (simp add: reset_defaults_def Let_def demo_replay_reset)
qed








lemma demo_replay_lists:
  "get_objs SERVICES (snd (restore_settings_dict demo_env (Some (get_all_io_objects_dict demo_replay))
          (firewalld_conf demo_replay) demo_reset)) = [] \<and>
   get_objs ICMPTYPES (snd (restore_settings_dict demo_env (Some (get_all_io_objects_dict demo_replay))
          (firewalld_conf demo_replay) demo_reset)) = [''ping'']"
  unfolding demo_replay_get_all
  apply (simp add: restore_settings_dict_def restore_order_def demo_reset_get_all)
  apply (simp add: restore_obj_def recreates_missing_def new_obj_def set_obj_config_def
      full_check_config_def check_order_def get_all_io_objects_dict_def get_objs_def get_obj_def
      List.map_filter_def add_obj_def Let_def
      demo_reset_def demo_replay_def demo_env_def demo_dir_def
      demo_office_def demo_office_builtin_def demo_ping_def demo_web_def)
  done

text \<open>
  C8. On \<open>demo_replay\<close>, which holds a custom service \<^verbatim>\<open>web\<close> and a custom ICMP type
  \<^verbatim>\<open>ping\<close> without builtin counterparts, the reset drops both and fails at writing
  firewalld.conf; after the replay the ICMP type is listed again and the service is not.
\<close>

theorem reset_defaults_loses_service:
  "get_objs SERVICES demo_replay = [''web''] \<and>
   get_objs ICMPTYPES demo_replay = [''ping''] \<and>
   fst (reset_defaults demo_env demo_replay) = Inl (OtherException ''IOError'') \<and>
   get_objs SERVICES (snd (reset_defaults demo_env demo_replay)) = [] \<and>
   get_objs ICMPTYPES (snd (reset_defaults demo_env demo_replay)) = [''ping'']"
  using demo_replay_lists
  by (simp add: demo_replay_reset_defaults) (simp add: get_objs_def demo_replay_def)

end
